theory Spec2Isabelle
  imports Main
begin

section \<open>Python values and exceptions\<close>

text \<open>
  The module \<^verbatim>\<open>pony/dbproviders/postgres.py\<close> is Python 2 code. A \<^verbatim>\<open>str\<close> is a
  sequence of bytes, modelled by \<^typ>\<open>string\<close> (a list of 8-bit characters); a
  \<^verbatim>\<open>unicode\<close> is a sequence of code points, modelled by a list of naturals. An
  exception that leaves a function is the \<open>Inl\<close> side of its result.
\<close>

datatype pyerror =
    TypeError
  | ValueError
  | NameError
  | AttributeError
  | IndexError
  | AssertionError
  | InvalidOperation
  | UnicodeDecodeError
  | DatabaseError "string list"   \<comment> \<open>\<^verbatim>\<open>orm.DatabaseError\<close> with its \<^verbatim>\<open>args\<close>\<close>
  | DriverError string            \<comment> \<open>an exception of the DB-API driver\<close>
  | OrmError string               \<comment> \<open>a driver exception as re-raised by \<^verbatim>\<open>orm\<close>\<close>

section \<open>The binary codec (lines 317--343)\<close>

definition backslash :: char where
  "backslash = CHR 0x5C"

text \<open>Python 2's \<^verbatim>\<open>oct\<close> on a non-negative integer: \<^verbatim>\<open>'0'\<close> for zero, otherwise a
  leading \<^verbatim>\<open>'0'\<close> followed by the octal digits.\<close>

definition digit_char :: "nat \<Rightarrow> char" where
  "digit_char n = char_of (48 + n)"

fun oct_digits :: "nat \<Rightarrow> string" where
  "oct_digits n = (if n < 8 then [digit_char n] else oct_digits (n div 8) @ [digit_char (n mod 8)])"

declare oct_digits.simps [simp del]

definition py_oct :: "nat \<Rightarrow> string" where
  "py_oct n = (if n = 0 then ''0'' else CHR ''0'' # oct_digits n)"

text \<open>The slice \<^verbatim>\<open>s[-3:]\<close>.\<close>

definition last3 :: "string \<Rightarrow> string" where
  "last3 s = drop (length s - 3) s"

text \<open>
  The dictionary \<^verbatim>\<open>char2oct\<close> as lines 317--323 build it: the loop stores an entry for
  every \<open>i\<close> in \<^verbatim>\<open>range(256)\<close>, and line 323 then overwrites the entry of the backslash.
\<close>

definition char2oct_table :: "char \<rightharpoonup> string" where
  "char2oct_table =
     (fold (\<lambda>i m. m(char_of i \<mapsto>
               (if 31 < i \<and> i < 127 then [char_of i]
                else backslash # last3 (''00'' @ py_oct i))))
        [0..<256] Map.empty)
     (backslash \<mapsto> [backslash, backslash])"

text \<open>
  \<^verbatim>\<open>char2oct.__getitem__\<close> as a function of the key: the overwritten entry first, then
  the entry of the loop. Every byte is a key of the dictionary and this is its entry
  (lemma \<open>char2oct_table_lookup\<close> below), so the lookup never raises \<^verbatim>\<open>KeyError\<close>.
\<close>

definition char2oct :: "char \<Rightarrow> string" where
  "char2oct ch =
     (if ch = backslash then [backslash, backslash]
      else let i = (of_char ch :: nat) in
        if 31 < i \<and> i < 127 then [ch]
        else backslash # last3 (''00'' @ py_oct i))"

definition BlobConverter_py2sql :: "string \<Rightarrow> string" where
  "BlobConverter_py2sql val = concat (map char2oct val)"

text \<open>\<^verbatim>\<open>binascii.unhexlify\<close>: two hexadecimal digits per byte, either case.\<close>

definition hex_digit :: "char \<Rightarrow> nat option" where
  "hex_digit c =
     (let n = (of_char c :: nat) in
      if 48 \<le> n \<and> n \<le> 57 then Some (n - 48)
      else if 97 \<le> n \<and> n \<le> 102 then Some (n - 87)
      else if 65 \<le> n \<and> n \<le> 70 then Some (n - 55)
      else None)"

fun unhexlify :: "string \<Rightarrow> pyerror + string" where
  "unhexlify [] = Inr []"
| "unhexlify [c] = Inl TypeError"
| "unhexlify (a # b # rest) =
     (case (hex_digit a, hex_digit b) of
        (Some h, Some l) \<Rightarrow>
          (case unhexlify rest of
             Inl e \<Rightarrow> Inl e
           | Inr bs \<Rightarrow> Inr (char_of (16 * h + l) # bs))
      | _ \<Rightarrow> Inl TypeError)"

text \<open>\<^verbatim>\<open>val.replace('\\\\', '\\')\<close>: every non-overlapping pair of backslashes, found
  from the left, becomes one backslash.\<close>

fun replace_backslashes :: "string \<Rightarrow> string" where
  "replace_backslashes (a # b # rest) =
     (if a = backslash \<and> b = backslash then backslash # replace_backslashes rest
      else a # replace_backslashes (b # rest))"
| "replace_backslashes s = s"

definition is_oct_digit :: "char \<Rightarrow> bool" where
  "is_oct_digit c = (48 \<le> (of_char c :: nat) \<and> (of_char c :: nat) \<le> 55)"

definition digit_val :: "char \<Rightarrow> nat" where
  "digit_val c = of_char c - 48"

text \<open>
  \<^verbatim>\<open>oct_re.sub(lambda match: chr(int(match.group(0)[-3:], 8)), s)\<close> with
  \<^verbatim>\<open>oct_re = re.compile(r'\\[0-7]{3}')\<close>: the matches are found from the left and do not
  overlap; each is replaced by \<^verbatim>\<open>chr\<close> of its three octal digits, and \<^verbatim>\<open>chr\<close> raises
  \<^verbatim>\<open>ValueError\<close> outside \<^verbatim>\<open>range(256)\<close>.
\<close>

fun oct_re_sub :: "string \<Rightarrow> pyerror + string" where
  "oct_re_sub (c # d1 # d2 # d3 # rest) =
     (if c = backslash \<and> is_oct_digit d1 \<and> is_oct_digit d2 \<and> is_oct_digit d3 then
        (let n = 64 * digit_val d1 + 8 * digit_val d2 + digit_val d3 in
         if n < 256 then
           (case oct_re_sub rest of Inl e \<Rightarrow> Inl e | Inr r \<Rightarrow> Inr (char_of n # r))
         else Inl ValueError)
      else (case oct_re_sub (d1 # d2 # d3 # rest) of Inl e \<Rightarrow> Inl e | Inr r \<Rightarrow> Inr (c # r)))"
| "oct_re_sub s = Inr s"

definition BlobConverter_sql2py :: "string \<Rightarrow> pyerror + string" where
  "BlobConverter_sql2py val =
     (if take 2 val = [backslash, CHR ''x''] then unhexlify (drop 2 val)
      else oct_re_sub (replace_backslashes val))"

text \<open>
  A byte sequence is free of clashes when no backslash in it is followed by three octal
  digits. \<open>mid\<close> is what the first pass of \<^verbatim>\<open>sql2py\<close> leaves of the entry of a byte.
\<close>

definition oct3 :: "string \<Rightarrow> bool" where
  "oct3 s =
     (case s of
        d1 # d2 # d3 # rest \<Rightarrow> is_oct_digit d1 \<and> is_oct_digit d2 \<and> is_oct_digit d3
      | _ \<Rightarrow> False)"

fun clash_free :: "string \<Rightarrow> bool" where
  "clash_free [] = True"
| "clash_free (c # s) = (\<not> (c = backslash \<and> oct3 s) \<and> clash_free s)"

definition mid :: "char \<Rightarrow> string" where
  "mid c = (if c = backslash then [backslash] else char2oct c)"

section \<open>Values, attributes and option dictionaries\<close>

record date =
  d_year :: int
  d_month :: int
  d_day :: int

record datetime =
  dt_year :: int
  dt_month :: int
  dt_day :: int
  dt_hour :: int
  dt_minute :: int
  dt_second :: int
  dt_microsecond :: int

text \<open>A finite \<^verbatim>\<open>Decimal\<close>: sign, coefficient, exponent, as in \<^verbatim>\<open>Decimal.as_tuple()\<close>.
  Not-a-number and the infinities play no part below and are left out.\<close>

datatype decimal = Dec bool nat int

datatype pyval =
    VNone
  | VBool bool
  | VInt int                \<comment> \<open>\<^verbatim>\<open>int\<close> and \<^verbatim>\<open>long\<close>\<close>
  | VStr string             \<comment> \<open>\<^verbatim>\<open>str\<close>, a byte string\<close>
  | VUnicode "nat list"     \<comment> \<open>\<^verbatim>\<open>unicode\<close>, a list of code points\<close>
  | VDecimal decimal
  | VDatetime datetime
  | VDate date

text \<open>\<^verbatim>\<open>isinstance(v, (int, long))\<close> and the integer it stands for; \<^verbatim>\<open>bool\<close> is a
  subclass of \<^verbatim>\<open>int\<close>.\<close>

fun py_int :: "pyval \<Rightarrow> int option" where
  "py_int (VInt i) = Some i"
| "py_int (VBool b) = Some (if b then 1 else 0)"
| "py_int _ = None"

text \<open>\<^verbatim>\<open>len(v)\<close>: only the two string types have a length.\<close>

fun py_len :: "pyval \<Rightarrow> pyerror + nat" where
  "py_len (VStr s) = Inr (length s)"
| "py_len (VUnicode u) = Inr (length u)"
| "py_len _ = Inl TypeError"

datatype pytype =
    T_bool | T_unicode | T_str | T_long | T_int | T_float | T_Decimal
  | T_buffer | T_datetime | T_date | T_LongStr | T_LongUnicode

text \<open>\<^verbatim>\<open>issubclass(py_type, (LongStr, LongUnicode))\<close>, the two large-text kinds of
  \<^verbatim>\<open>pony.clobtypes\<close>.\<close>

fun is_clob :: "pytype \<Rightarrow> bool" where
  "is_clob T_LongStr = True"
| "is_clob T_LongUnicode = True"
| "is_clob _ = False"

type_synonym dict = "(string \<times> pyval) list"

record attr =
  py_type :: pytype
  attr_args :: "pyval list"
  attr_keyargs :: dict

text \<open>\<^verbatim>\<open>d.pop(key, default)\<close>: the value and the dictionary without the key.\<close>

definition dict_pop :: "dict \<Rightarrow> string \<Rightarrow> pyval \<Rightarrow> pyval \<times> dict" where
  "dict_pop d k dflt =
     ((case map_of d k of None \<Rightarrow> dflt | Some v \<Rightarrow> v), filter (\<lambda>kv. fst kv \<noteq> k) d)"

text \<open>An instance attribute that \<^verbatim>\<open>init\<close> assigns. \<^verbatim>\<open>Converter.__init__\<close> returns
  before \<^verbatim>\<open>init\<close> when there is no \<^verbatim>\<open>attr\<close>, and the attribute then does not exist:
  reading it raises \<^verbatim>\<open>AttributeError\<close>.\<close>

datatype 'a slot = Unset | Assigned 'a

section \<open>Text converters (lines 140--182)\<close>

record basestring_converter =
  bc_attr :: "attr option"
  bc_max_len :: "int option slot"
  bc_db_encoding :: pyval

text \<open>\<^verbatim>\<open>BasestringConverter.init\<close>. The name \<^verbatim>\<open>unexpected_args\<close> is neither defined nor
  imported in the module, so the call of line 148 raises \<^verbatim>\<open>NameError\<close>. The checks of
  lines 150--154 leave \<^verbatim>\<open>max_len\<close> either \<^verbatim>\<open>None\<close> or an integer.\<close>

definition BasestringConverter_init ::
  "basestring_converter \<Rightarrow> dict \<Rightarrow> pyerror + basestring_converter \<times> dict" where
  "BasestringConverter_init converter keyargs =
     (case
        (case bc_attr converter of
           Some a \<Rightarrow>
             (case
                (if attr_args a = [] then Inr VNone
                 else if length (attr_args a) > 1 then Inl NameError
                 else Inr (attr_args a ! 0))
              of
                Inl e \<Rightarrow> Inl e
              | Inr max_len \<Rightarrow>
                  if is_clob (py_type a) then
                    (if max_len \<noteq> VNone then Inl TypeError else Inr None)
                  else if max_len = VNone then Inr (Some 200)
                  else (case py_int max_len of
                          None \<Rightarrow> Inl TypeError
                        | Some n \<Rightarrow> Inr (Some n)))
         | None \<Rightarrow> Inr None)
      of
        Inl e \<Rightarrow> Inl e
      | Inr ml \<Rightarrow>
          (case dict_pop keyargs ''db_encoding'' (VStr ''utf8'') of
             (enc, keyargs') \<Rightarrow>
               Inr (converter\<lparr>bc_max_len := Assigned ml, bc_db_encoding := enc\<rparr>, keyargs')))"

text \<open>\<^verbatim>\<open>BasestringConverter.__init__\<close> followed by \<^verbatim>\<open>Converter.__init__\<close>: an option that
  \<^verbatim>\<open>init\<close> leaves in the dictionary is an unknown option.\<close>

definition BasestringConverter_new :: "attr option \<Rightarrow> pyerror + basestring_converter" where
  "BasestringConverter_new a =
     (let converter = \<lparr>bc_attr = a, bc_max_len = Unset, bc_db_encoding = VNone\<rparr> in
      case a of
        None \<Rightarrow> Inr converter
      | Some at \<Rightarrow>
          (case BasestringConverter_init converter (attr_keyargs at) of
             Inl e \<Rightarrow> Inl e
           | Inr (converter', keyargs) \<Rightarrow>
               if keyargs \<noteq> [] then Inl TypeError else Inr converter'))"

definition BasestringConverter_validate ::
  "basestring_converter \<Rightarrow> pyval \<Rightarrow> pyerror + pyval" where
  "BasestringConverter_validate converter val =
     (case bc_max_len converter of
        Unset \<Rightarrow> Inl AttributeError
      | Assigned max_len \<Rightarrow>
          (case py_len val of
             Inl e \<Rightarrow> Inl e
           | Inr val_len \<Rightarrow>
               if (case max_len of None \<Rightarrow> False
                   | Some m \<Rightarrow> m \<noteq> 0 \<and> int val_len > m)
               then Inl ValueError
               else if val_len = 0 then Inl ValueError
               else Inr val))"

text \<open>\<^verbatim>\<open>val.decode('ascii')\<close> fails on a byte above 127.\<close>

definition decode_ascii :: "string \<Rightarrow> pyerror + nat list" where
  "decode_ascii s =
     (if list_all (\<lambda>c. (of_char c :: nat) < 128) s then Inr (map of_char s)
      else Inl UnicodeDecodeError)"

definition UnicodeConverter_validate ::
  "basestring_converter \<Rightarrow> pyval \<Rightarrow> pyerror + pyval" where
  "UnicodeConverter_validate converter val =
     (case val of
        VNone \<Rightarrow> BasestringConverter_validate converter val
      | VStr s \<Rightarrow>
          (case decode_ascii s of
             Inl e \<Rightarrow> Inl e
           | Inr u \<Rightarrow> BasestringConverter_validate converter (VUnicode u))
      | VUnicode u \<Rightarrow> BasestringConverter_validate converter val
      | _ \<Rightarrow> Inl TypeError)"

section \<open>Integer converters (lines 203--230)\<close>

record int_converter =
  ic_attr :: "attr option"
  ic_min_val :: "int option slot"
  ic_max_val :: "int option slot"

text \<open>A bound popped from the options: \<^verbatim>\<open>None\<close> or an integer, anything else is a
  \<^verbatim>\<open>TypeError\<close> (lines 208 and 211).\<close>

definition int_bound :: "pyval \<Rightarrow> pyerror + int option" where
  "int_bound v =
     (if v = VNone then Inr None
      else case py_int v of None \<Rightarrow> Inl TypeError | Some i \<Rightarrow> Inr (Some i))"

definition IntConverter_init ::
  "int_converter \<Rightarrow> dict \<Rightarrow> pyerror + int_converter \<times> dict" where
  "IntConverter_init converter keyargs =
     (if (case ic_attr converter of None \<Rightarrow> False | Some a \<Rightarrow> attr_args a \<noteq> [])
      then Inl NameError
      else case dict_pop keyargs ''min'' VNone of
        (min_v, keyargs1) \<Rightarrow>
          (case int_bound min_v of
             Inl e \<Rightarrow> Inl e
           | Inr min_val \<Rightarrow>
               (case dict_pop keyargs1 ''max'' VNone of
                  (max_v, keyargs2) \<Rightarrow>
                    (case int_bound max_v of
                       Inl e \<Rightarrow> Inl e
                     | Inr max_val \<Rightarrow>
                         Inr (converter\<lparr>ic_min_val := Assigned min_val,
                                ic_max_val := Assigned max_val\<rparr>, keyargs2)))))"

definition IntConverter_new :: "attr option \<Rightarrow> pyerror + int_converter" where
  "IntConverter_new a =
     (let converter = \<lparr>ic_attr = a, ic_min_val = Unset, ic_max_val = Unset\<rparr> in
      case a of
        None \<Rightarrow> Inr converter
      | Some at \<Rightarrow>
          (case IntConverter_init converter (attr_keyargs at) of
             Inl e \<Rightarrow> Inl e
           | Inr (converter', keyargs) \<Rightarrow>
               if keyargs \<noteq> [] then Inl TypeError else Inr converter'))"

text \<open>\<^verbatim>\<open>IntConverter.validate\<close>, inherited by \<^verbatim>\<open>LongConverter\<close>. The tests
  \<^verbatim>\<open>converter.min_val and ...\<close> and \<^verbatim>\<open>converter.max_val and ...\<close> take a bound of 0 as
  false, like \<^verbatim>\<open>None\<close>.\<close>

definition IntConverter_validate :: "int_converter \<Rightarrow> pyval \<Rightarrow> pyerror + pyval" where
  "IntConverter_validate converter val =
     (case py_int val of
        None \<Rightarrow> Inl TypeError
      | Some v \<Rightarrow>
          (case ic_min_val converter of
             Unset \<Rightarrow> Inl AttributeError
           | Assigned min_val \<Rightarrow>
               if (case min_val of None \<Rightarrow> False | Some m \<Rightarrow> m \<noteq> 0 \<and> v < m)
               then Inl ValueError
               else
                 (case ic_max_val converter of
                    Unset \<Rightarrow> Inl AttributeError
                  | Assigned max_val \<Rightarrow>
                      if (case max_val of None \<Rightarrow> False | Some m \<Rightarrow> m \<noteq> 0 \<and> v > m)
                      then Inl ValueError
                      else Inr val)))"

section \<open>Decimal converter (lines 262--315)\<close>

text \<open>The numeric order of two decimals, after scaling both coefficients to the smaller
  exponent.\<close>

definition dec_scaled :: "decimal \<Rightarrow> int \<Rightarrow> int" where
  "dec_scaled d m =
     (case d of Dec neg c e \<Rightarrow> (if neg then - int c else int c) * 10 ^ nat (e - m))"

definition dec_exp :: "decimal \<Rightarrow> int" where
  "dec_exp d = (case d of Dec neg c e \<Rightarrow> e)"

definition dec_less :: "decimal \<Rightarrow> decimal \<Rightarrow> bool" where
  "dec_less a b =
     (let m = min (dec_exp a) (dec_exp b) in dec_scaled a m < dec_scaled b m)"

record decimal_converter =
  dc_attr :: "attr option"
  dc_precision :: "int slot"
  dc_scale :: "int slot"
  dc_exp :: "decimal slot"
  dc_min_val :: "decimal option slot"
  dc_max_val :: "decimal option slot"

text \<open>
  The constructor \<^verbatim>\<open>Decimal(v)\<close> of the standard library is a parameter \<open>mk\<close> of the
  model: it returns the decimal or the exception it raises.

  A bound popped from the options (lines 289--299): \<^verbatim>\<open>None\<close> stays, anything else goes
  through \<^verbatim>\<open>Decimal\<close>; its \<^verbatim>\<open>TypeError\<close> is raised again as a \<^verbatim>\<open>TypeError\<close>, any other
  exception passes.
\<close>

definition decimal_bound ::
  "(pyval \<Rightarrow> pyerror + decimal) \<Rightarrow> pyval \<Rightarrow> pyerror + decimal option" where
  "decimal_bound mk v =
     (if v = VNone then Inr None
      else case mk v of Inl e \<Rightarrow> Inl e | Inr d \<Rightarrow> Inr (Some d))"

definition DecimalConverter_init ::
  "(pyval \<Rightarrow> pyerror + decimal) \<Rightarrow> decimal_converter \<Rightarrow> dict
     \<Rightarrow> pyerror + decimal_converter \<times> dict" where
  "DecimalConverter_init mk converter keyargs =
     (case dc_attr converter of
        None \<Rightarrow> Inl AttributeError
      | Some a \<Rightarrow>
          let args = attr_args a in
          if length args > 2 then Inl TypeError
          else case (if args \<noteq> [] then (args ! 0, keyargs)
                     else dict_pop keyargs ''precision'' (VInt 12)) of
            (precision_v, keyargs1) \<Rightarrow>
          (case py_int precision_v of
             None \<Rightarrow> Inl TypeError
           | Some precision \<Rightarrow>
          if precision \<le> 0 then Inl TypeError
          else case (if length args = 2 then (args ! 1, keyargs1)
                     else dict_pop keyargs1 ''scale'' (VInt 2)) of
            (scale_v, keyargs2) \<Rightarrow>
          (case py_int scale_v of
             None \<Rightarrow> Inl TypeError
           | Some scale \<Rightarrow>
          if scale \<le> 0 then Inl TypeError
          else if scale > precision then Inl ValueError
          else case dict_pop keyargs2 ''min'' VNone of
            (min_v, keyargs3) \<Rightarrow>
          (case decimal_bound mk min_v of
             Inl e \<Rightarrow> Inl e
           | Inr min_val \<Rightarrow>
          (case dict_pop keyargs3 ''max'' VNone of
            (max_v, keyargs4) \<Rightarrow>
          (case decimal_bound mk max_v of
             Inl e \<Rightarrow> Inl e
           | Inr max_val \<Rightarrow>
               Inr (converter\<lparr>dc_precision := Assigned precision,
                      dc_scale := Assigned scale,
                      dc_exp := Assigned (Dec False 1 (- scale)),
                      dc_min_val := Assigned min_val,
                      dc_max_val := Assigned max_val\<rparr>, keyargs4)))))))"

definition DecimalConverter_new ::
  "(pyval \<Rightarrow> pyerror + decimal) \<Rightarrow> attr option \<Rightarrow> pyerror + decimal_converter" where
  "DecimalConverter_new mk a =
     (let converter = \<lparr>dc_attr = a, dc_precision = Unset, dc_scale = Unset, dc_exp = Unset,
                        dc_min_val = Unset, dc_max_val = Unset\<rparr> in
      case a of
        None \<Rightarrow> Inr converter
      | Some at \<Rightarrow>
          (case DecimalConverter_init mk converter (attr_keyargs at) of
             Inl e \<Rightarrow> Inl e
           | Inr (converter', keyargs) \<Rightarrow>
               if keyargs \<noteq> [] then Inl TypeError else Inr converter'))"

text \<open>The precision and the scale that \<^verbatim>\<open>init\<close> reads from an attribute (lines
  270--271 and 277--278): the positional argument when there is one, otherwise the
  keyword option or its default.\<close>

definition declared_precision :: "attr \<Rightarrow> pyval" where
  "declared_precision a =
     (if attr_args a \<noteq> [] then attr_args a ! 0
      else fst (dict_pop (attr_keyargs a) ''precision'' (VInt 12)))"

definition declared_scale :: "attr \<Rightarrow> pyval" where
  "declared_scale a =
     (if length (attr_args a) = 2 then attr_args a ! 1
      else fst (dict_pop (attr_keyargs a) ''scale'' (VInt 2)))"

text \<open>
  \<^verbatim>\<open>DecimalConverter.validate\<close>, lines 304--307: a \<^verbatim>\<open>Decimal\<close> is returned as it is;
  anything else is returned converted, or \<^verbatim>\<open>InvalidOperation\<close> becomes a \<^verbatim>\<open>TypeError\<close>.
  Every path has returned or raised at line 307.
\<close>

definition DecimalConverter_validate ::
  "(pyval \<Rightarrow> pyerror + decimal) \<Rightarrow> decimal_converter \<Rightarrow> pyval \<Rightarrow> pyerror + pyval" where
  "DecimalConverter_validate mk converter val =
     (case val of
        VDecimal d \<Rightarrow> Inr val
      | _ \<Rightarrow>
          (case mk val of
             Inr d \<Rightarrow> Inr (VDecimal d)
           | Inl InvalidOperation \<Rightarrow> Inl TypeError
           | Inl e \<Rightarrow> Inl e))"

text \<open>
  Lines 308--313 of \<^verbatim>\<open>validate\<close>, the two range checks that follow the \<^verbatim>\<open>try\<close>
  statement, on a decimal value: what they would raise if control reached them.
\<close>

definition DecimalConverter_range_checks :: "decimal_converter \<Rightarrow> decimal \<Rightarrow> pyerror + unit" where
  "DecimalConverter_range_checks converter d =
     (case dc_min_val converter of
        Unset \<Rightarrow> Inl AttributeError
      | Assigned min_val \<Rightarrow>
          if (case min_val of None \<Rightarrow> False | Some m \<Rightarrow> dec_less d m) then Inl ValueError
          else
            (case dc_max_val converter of
               Unset \<Rightarrow> Inl AttributeError
             | Assigned max_val \<Rightarrow>
                 if (case max_val of None \<Rightarrow> False | Some m \<Rightarrow> dec_less m d)
                 then Inl ValueError
                 else Inr ()))"

section \<open>Date converter (lines 358--372)\<close>

definition datetime_date :: "datetime \<Rightarrow> date" where
  "datetime_date dt = \<lparr>d_year = dt_year dt, d_month = dt_month dt, d_day = dt_day dt\<rparr>"

definition DateConverter_validate :: "pyval \<Rightarrow> pyerror + pyval" where
  "DateConverter_validate val =
     (case val of
        VDatetime dt \<Rightarrow> Inr (VDate (datetime_date dt))
      | VDate d \<Rightarrow> Inr val
      | _ \<Rightarrow> Inl TypeError)"

text \<open>\<^verbatim>\<open>datetime(val.year, val.month, val.day)\<close>: midnight of that day. A value without
  these attributes raises \<^verbatim>\<open>AttributeError\<close>.\<close>

definition midnight :: "int \<Rightarrow> int \<Rightarrow> int \<Rightarrow> datetime" where
  "midnight y m d =
     \<lparr>dt_year = y, dt_month = m, dt_day = d, dt_hour = 0, dt_minute = 0, dt_second = 0,
      dt_microsecond = 0\<rparr>"

definition DateConverter_py2sql :: "pyval \<Rightarrow> pyerror + pyval" where
  "DateConverter_py2sql val =
     (case val of
        VDate d \<Rightarrow> Inr (VDatetime (midnight (d_year d) (d_month d) (d_day d)))
      | VDatetime dt \<Rightarrow> Inr (VDatetime (midnight (dt_year dt) (dt_month dt) (dt_day dt)))
      | _ \<Rightarrow> Inl AttributeError)"

text \<open>The calendar of \<^verbatim>\<open>datetime.date\<close>: years 1 to 9999, Gregorian leap years.\<close>

definition is_leap :: "int \<Rightarrow> bool" where
  "is_leap y = (y mod 4 = 0 \<and> (y mod 100 \<noteq> 0 \<or> y mod 400 = 0))"

definition days_in_month :: "int \<Rightarrow> int \<Rightarrow> int" where
  "days_in_month y m =
     (if m = 2 then (if is_leap y then 29 else 28)
      else if m = 4 \<or> m = 6 \<or> m = 9 \<or> m = 11 then 30
      else 31)"

definition valid_date :: "date \<Rightarrow> bool" where
  "valid_date d =
     (1 \<le> d_year d \<and> d_year d \<le> 9999 \<and> 1 \<le> d_month d \<and> d_month d \<le> 12 \<and>
      1 \<le> d_day d \<and> d_day d \<le> days_in_month (d_year d) (d_month d))"

definition is_digit :: "char \<Rightarrow> bool" where
  "is_digit c = (48 \<le> (of_char c :: nat) \<and> (of_char c :: nat) \<le> 57)"

definition char_in :: "char \<Rightarrow> nat \<Rightarrow> nat \<Rightarrow> bool" where
  "char_in c lo hi = (48 + lo \<le> (of_char c :: nat) \<and> (of_char c :: nat) \<le> 48 + hi)"

text \<open>
  \<^verbatim>\<open>datetime.strptime(s, '%Y-%m-%d').date()\<close> on a byte string. The standard library
  matches \<open>s\<close> from its start against
  \<^verbatim>\<open>(\d\d\d\d)-(1[0-2]|0[1-9]|[1-9])-(3[0-1]|[1-2]\d|0[1-9]|[1-9]| [1-9])\<close>,
  raises \<^verbatim>\<open>ValueError\<close> when there is no match, when text remains after the match, or
  when year, month and day are not a date of the calendar. The three functions follow
  the three groups; the alternatives of a group are tried in the order of the pattern.
\<close>

definition strptime_day :: "string \<Rightarrow> nat option" where
  "strptime_day s =
     (case s of
        [] \<Rightarrow> None
      | a # t \<Rightarrow>
         (case t of
            [] \<Rightarrow> (if char_in a 1 9 then Some (digit_val a) else None)
          | b # u \<Rightarrow>
              if a = CHR ''3'' \<and> char_in b 0 1 then
                (if u = [] then Some (10 * digit_val a + digit_val b) else None)
              else if char_in a 1 2 \<and> is_digit b then
                (if u = [] then Some (10 * digit_val a + digit_val b) else None)
              else if a = CHR ''0'' \<and> char_in b 1 9 then
                (if u = [] then Some (digit_val b) else None)
              else if char_in a 1 9 then None
              else if a = CHR '' '' \<and> char_in b 1 9 then
                (if u = [] then Some (digit_val b) else None)
              else None))"

definition strptime_month_day :: "string \<Rightarrow> (nat \<times> nat) option" where
  "strptime_month_day s =
     (case s of
        a # b # c # rest \<Rightarrow>
          if a = CHR ''1'' \<and> char_in b 0 2 \<and> c = CHR ''-'' then
            map_option (Pair (10 + digit_val b)) (strptime_day rest)
          else if a = CHR ''0'' \<and> char_in b 1 9 \<and> c = CHR ''-'' then
            map_option (Pair (digit_val b)) (strptime_day rest)
          else if char_in a 1 9 \<and> b = CHR ''-'' then
            map_option (Pair (digit_val a)) (strptime_day (c # rest))
          else None
      | _ \<Rightarrow> None)"

definition strptime_Ymd :: "string \<Rightarrow> pyerror + date" where
  "strptime_Ymd s =
     (case s of
        y1 # y2 # y3 # y4 # dash # rest \<Rightarrow>
          if is_digit y1 \<and> is_digit y2 \<and> is_digit y3 \<and> is_digit y4 \<and> dash = CHR ''-'' then
            (case strptime_month_day rest of
               None \<Rightarrow> Inl ValueError
             | Some (m, d) \<Rightarrow>
                 (let dt = \<lparr>d_year = int (1000 * digit_val y1 + 100 * digit_val y2
                                           + 10 * digit_val y3 + digit_val y4),
                            d_month = int m, d_day = int d\<rparr>
                  in if valid_date dt then Inr dt else Inl ValueError))
          else Inl ValueError
      | _ \<Rightarrow> Inl ValueError)"

text \<open>\<^verbatim>\<open>DateConverter.sql2py\<close>: \<^verbatim>\<open>strptime\<close> takes a string and raises \<^verbatim>\<open>TypeError\<close> on
  anything else; a \<^verbatim>\<open>unicode\<close> string is matched like a byte string, and a code point
  above 127 matches nothing in the pattern.\<close>

definition DateConverter_sql2py :: "pyval \<Rightarrow> pyerror + pyval" where
  "DateConverter_sql2py val =
     (case val of
        VStr s \<Rightarrow> (case strptime_Ymd s of Inl e \<Rightarrow> Inl e | Inr d \<Rightarrow> Inr (VDate d))
      | VUnicode u \<Rightarrow>
          if list_all (\<lambda>n. n < 128) u then
            (case strptime_Ymd (map char_of u) of Inl e \<Rightarrow> Inl e | Inr d \<Rightarrow> Inr (VDate d))
          else Inl ValueError
      | _ \<Rightarrow> Inl TypeError)"

text \<open>The literal \<^verbatim>\<open>YYYY-MM-DD\<close> of a date, every field padded with zeros.\<close>

definition date_literal :: "date \<Rightarrow> string" where
  "date_literal d =
     (let y = nat (d_year d); m = nat (d_month d); dd = nat (d_day d) in
      [digit_char (y div 1000), digit_char (y div 100 mod 10), digit_char (y div 10 mod 10),
       digit_char (y mod 10), CHR ''-'', digit_char (m div 10), digit_char (m mod 10),
       CHR ''-'', digit_char (dd div 10), digit_char (dd mod 10)])"

section \<open>The driver's connections\<close>

text \<open>
  Modelled from the spec: the DB-API driver \<^verbatim>\<open>pgdb\<close> and its connection objects are
  not part of the module. A connection is what the specification says of it: a failed
  statement leaves its transaction aborted, a rollback that succeeds resets it, and a
  close that succeeds discards it. Whether a call of the driver raises is not decided by
  the module: the record \<open>driver\<close> gives, for each call, the exception it raises, if any.
\<close>

record connection =
  in_failed_transaction :: bool
  is_closed :: bool
  rollback_calls :: nat

record driver =
  rollback_raises :: "connection \<Rightarrow> pyerror option"
  close_raises :: "connection \<Rightarrow> pyerror option"
  connect_raises :: "pyval list \<Rightarrow> dict \<Rightarrow> nat \<Rightarrow> pyerror option"
    \<comment> \<open>the arguments of \<^verbatim>\<open>pgdb.connect\<close> and the number of connections opened so far\<close>

definition con_rollback :: "driver \<Rightarrow> connection \<Rightarrow> (pyerror + unit) \<times> connection" where
  "con_rollback drv c =
     (case rollback_raises drv c of
        Some e \<Rightarrow> (Inl e, c\<lparr>rollback_calls := Suc (rollback_calls c)\<rparr>)
      | None \<Rightarrow>
          (Inr (), c\<lparr>in_failed_transaction := False,
                      rollback_calls := Suc (rollback_calls c)\<rparr>))"

definition con_close :: "driver \<Rightarrow> connection \<Rightarrow> (pyerror + unit) \<times> connection" where
  "con_close drv c =
     (case close_raises drv c of
        Some e \<Rightarrow> (Inl e, c)
      | None \<Rightarrow> (Inr (), c\<lparr>is_closed := True\<rparr>))"

section \<open>Table creation (lines 23--33)\<close>

text \<open>The test \<^verbatim>\<open>p in s\<close> on two byte strings.\<close>

fun py_contains :: "string \<Rightarrow> string \<Rightarrow> bool" where
  "py_contains p [] = (p = [])"
| "py_contains p (c # s) = (take (length p) (c # s) = p \<or> py_contains p s)"

text \<open>
  Modelled from the spec: \<^verbatim>\<open>orm.wrap_dbapi_exceptions(provider, f)\<close> is defined in
  \<^verbatim>\<open>pony.orm\<close>, outside the module. It calls \<open>f\<close> once and surfaces a failure of the
  driver as the corresponding exception of \<^verbatim>\<open>orm\<close>; \<open>wrap\<close> is that correspondence.
\<close>

definition wrap_dbapi_exceptions ::
  "(pyerror \<Rightarrow> pyerror) \<Rightarrow> (connection \<Rightarrow> (pyerror + unit) \<times> connection)
     \<Rightarrow> connection \<Rightarrow> (pyerror + unit) \<times> connection" where
  "wrap_dbapi_exceptions wrap f c =
     (case f c of
        (Inl e, c') \<Rightarrow> (Inl (wrap e), c')
      | (Inr u, c') \<Rightarrow> (Inr u, c'))"

text \<open>
  \<^verbatim>\<open>PGTable.create\<close>. The inherited \<^verbatim>\<open>dbschema.Table.create\<close> is the parameter
  \<open>Table_create\<close>: it returns or raises, and leaves the connection in some state. The
  two \<^verbatim>\<open>print\<close> statements under \<^verbatim>\<open>orm.debug\<close> only write to the console.
\<close>

definition PGTable_create ::
  "(pyerror \<Rightarrow> pyerror) \<Rightarrow> driver \<Rightarrow> (connection \<Rightarrow> (pyerror + unit) \<times> connection)
     \<Rightarrow> connection \<Rightarrow> (pyerror + unit) \<times> connection" where
  "PGTable_create wrap drv Table_create connection =
     (case Table_create connection of
        (Inr u, c) \<Rightarrow> (Inr u, c)
      | (Inl e, c) \<Rightarrow>
          (case e of
             DatabaseError args \<Rightarrow>
               (case args of
                  [] \<Rightarrow> (Inl IndexError, c)
                | msg # _ \<Rightarrow>
                    if \<not> py_contains ''already exists'' msg then (Inl e, c)
                    else wrap_dbapi_exceptions wrap (con_rollback drv) c)
           | _ \<Rightarrow> (Inl e, c)))"

section \<open>The connection lease (lines 74--92)\<close>

text \<open>
  The lease refers to its connection object; the objects live in a store addressed by
  handles. \<open>opened\<close> counts the connections the driver has opened, and the next one gets
  that number as its handle.
\<close>

record pool =
  pool_args :: "pyval list"
  pool_keyargs :: dict
  pool_con :: "nat option"

record world =
  conns :: "nat \<Rightarrow> connection"
  opened :: nat

definition Pool_init :: "pyval list \<Rightarrow> dict \<Rightarrow> pool" where
  "Pool_init args keyargs = \<lparr>pool_args = args, pool_keyargs = keyargs, pool_con = None\<rparr>"

definition pgdb_connect ::
  "driver \<Rightarrow> pyval list \<Rightarrow> dict \<Rightarrow> world \<Rightarrow> (pyerror + nat) \<times> world" where
  "pgdb_connect drv args keyargs w =
     (case connect_raises drv args keyargs (opened w) of
        Some e \<Rightarrow> (Inl e, w)
      | None \<Rightarrow>
          (Inr (opened w),
           w\<lparr>conns := (conns w)(opened w :=
                 \<lparr>in_failed_transaction = False, is_closed = False, rollback_calls = 0\<rparr>),
             opened := Suc (opened w)\<rparr>))"

definition Pool_connect :: "driver \<Rightarrow> pool \<Rightarrow> world \<Rightarrow> (pyerror + nat) \<times> pool \<times> world" where
  "Pool_connect drv p w =
     (case pool_con p of
        None \<Rightarrow>
          (case pgdb_connect drv (pool_args p) (pool_keyargs p) w of
             (Inl e, w') \<Rightarrow> (Inl e, p, w')
           | (Inr h, w') \<Rightarrow> (Inr h, p\<lparr>pool_con := Some h\<rparr>, w'))
      | Some h \<Rightarrow> (Inr h, p, w))"

definition Pool_close ::
  "driver \<Rightarrow> pool \<Rightarrow> world \<Rightarrow> nat \<Rightarrow> (pyerror + unit) \<times> pool \<times> world" where
  "Pool_close drv p w con =
     (if pool_con p \<noteq> Some con then (Inl AssertionError, p, w)
      else case con_close drv (conns w con) of
        (r, c') \<Rightarrow> (r, p\<lparr>pool_con := None\<rparr>, w\<lparr>conns := (conns w)(con := c')\<rparr>))"

text \<open>\<^verbatim>\<open>Pool.release\<close>: when \<^verbatim>\<open>pool.close(con)\<close> raises inside the \<^verbatim>\<open>except\<close> block, that
  exception leaves \<^verbatim>\<open>release\<close> and the \<^verbatim>\<open>raise\<close> of line 88 is not reached.\<close>

definition Pool_release ::
  "driver \<Rightarrow> pool \<Rightarrow> world \<Rightarrow> nat \<Rightarrow> (pyerror + unit) \<times> pool \<times> world" where
  "Pool_release drv p w con =
     (if pool_con p \<noteq> Some con then (Inl AssertionError, p, w)
      else case con_rollback drv (conns w con) of
        (Inr u, c') \<Rightarrow> (Inr u, p, w\<lparr>conns := (conns w)(con := c')\<rparr>)
      | (Inl e, c') \<Rightarrow>
          (case Pool_close drv p (w\<lparr>conns := (conns w)(con := c')\<rparr>) con of
             (Inl e', p', w') \<Rightarrow> (Inl e', p', w')
           | (Inr u, p', w') \<Rightarrow> (Inl e, p', w')))"

text \<open>A caller's sequence of calls on one lease, stopped by the first exception.\<close>

datatype lease_call = Acquire | Release nat

fun lease_calls :: "driver \<Rightarrow> lease_call list \<Rightarrow> pool \<Rightarrow> world \<Rightarrow> pyerror + pool \<times> world" where
  "lease_calls drv [] p w = Inr (p, w)"
| "lease_calls drv (Acquire # cs) p w =
     (case Pool_connect drv p w of
        (Inl e, p', w') \<Rightarrow> Inl e
      | (Inr h, p', w') \<Rightarrow> lease_calls drv cs p' w')"
| "lease_calls drv (Release con # cs) p w =
     (case Pool_release drv p w con of
        (Inl e, p', w') \<Rightarrow> Inl e
      | (Inr u, p', w') \<Rightarrow> lease_calls drv cs p' w')"

section \<open>Properties of the text converters\<close>

text \<open>
  C10. \<^verbatim>\<open>UnicodeConverter.validate(None)\<close> always raises: \<^verbatim>\<open>None\<close> passes the type
  branch unchanged and goes to \<^verbatim>\<open>BasestringConverter.validate\<close>, which raises. On a
  converter built from an attribute the failure is the \<^verbatim>\<open>TypeError\<close> of \<^verbatim>\<open>len(None)\<close>;
  on a converter built without one, reading \<^verbatim>\<open>max_len\<close> already raises.
\<close>

theorem UnicodeConverter_validate_None:
  "UnicodeConverter_validate converter VNone = BasestringConverter_validate converter VNone
   \<and> BasestringConverter_validate converter VNone =
       Inl (case bc_max_len converter of Unset \<Rightarrow> AttributeError | Assigned m \<Rightarrow> TypeError)"
  by (simp add: UnicodeConverter_validate_def BasestringConverter_validate_def
      split: slot.splits)

lemma BasestringConverter_validate_too_long:
  assumes "bc_max_len converter = Assigned (Some m)" and "m \<noteq> 0"
    and "py_len val = Inr n" and "m < int n"
  shows "BasestringConverter_validate converter val = Inl ValueError"
  using assms by (simp add: BasestringConverter_validate_def)

lemma UnicodeConverter_validate_too_long:
  assumes "bc_max_len converter = Assigned (Some m)" and "m \<noteq> 0"
    and "py_len val = Inr n" and "m < int n"
  shows "UnicodeConverter_validate converter val = Inl ValueError
       \<or> UnicodeConverter_validate converter val = Inl UnicodeDecodeError"
proof (cases val)
  case (VStr s)
  show ?thesis
  proof (cases "decode_ascii s")
    case (Inl e)
    then have "e = UnicodeDecodeError"
      by (simp add: decode_ascii_def split: if_splits)
    with Inl VStr show ?thesis by (simp add: UnicodeConverter_validate_def)
  next
    case (Inr u)
    then have "length u = length s"
      by (auto simp add: decode_ascii_def split: if_splits)
    with assms VStr have "BasestringConverter_validate converter (VUnicode u) = Inl ValueError"
      by (simp add: BasestringConverter_validate_def)
    with Inr VStr show ?thesis by (simp add: UnicodeConverter_validate_def)
  qed
next
  case (VUnicode u)
  with assms show ?thesis
    by (simp add: UnicodeConverter_validate_def BasestringConverter_validate_def)
qed (use assms in simp_all)

lemma BasestringConverter_new_default_max_len:
  assumes "attr_args a = []" and "\<not> is_clob (py_type a)"
    and "BasestringConverter_new (Some a) = Inr c"
  shows "bc_max_len c = Assigned (Some 200)"
  using assms
  by (auto simp add: BasestringConverter_new_def BasestringConverter_init_def dict_pop_def
      split: if_splits)

text \<open>
  C7, amended. When the configured \<^verbatim>\<open>max_len\<close> is an integer other than 0,
  \<^verbatim>\<open>validate\<close> rejects every value whose length exceeds it: the base class with a
  \<^verbatim>\<open>ValueError\<close>, the Unicode converter with a \<^verbatim>\<open>ValueError\<close> or, for a byte string
  that is not ASCII, a \<^verbatim>\<open>UnicodeDecodeError\<close>. A converter built from an attribute that
  declares no length and is not of a large-text kind has \<^verbatim>\<open>max_len\<close> 200.
\<close>

theorem text_validate_rejects_over_max_len:
  "(bc_max_len converter = Assigned (Some m) \<and> m \<noteq> 0 \<and> py_len val = Inr n \<and> m < int n \<longrightarrow>
      BasestringConverter_validate converter val = Inl ValueError
      \<and> (UnicodeConverter_validate converter val = Inl ValueError
         \<or> UnicodeConverter_validate converter val = Inl UnicodeDecodeError))
   \<and> (attr_args a = [] \<and> \<not> is_clob (py_type a) \<and> BasestringConverter_new (Some a) = Inr c \<longrightarrow>
      bc_max_len c = Assigned (Some 200))"
  using BasestringConverter_validate_too_long UnicodeConverter_validate_too_long
    BasestringConverter_new_default_max_len
  by blast

theorem text_validate_rejects_over_max_len_witness:
  "BasestringConverter_validate
     \<lparr>bc_attr = None, bc_max_len = Assigned (Some 3), bc_db_encoding = VNone\<rparr>
     (VStr ''abcd'') = Inl ValueError
   \<and> BasestringConverter_new
       (Some \<lparr>py_type = T_unicode, attr_args = [], attr_keyargs = []\<rparr>) =
     Inr \<lparr>bc_attr = Some \<lparr>py_type = T_unicode, attr_args = [], attr_keyargs = []\<rparr>,
          bc_max_len = Assigned (Some 200), bc_db_encoding = VStr ''utf8''\<rparr>"
proof -
  have new: "BasestringConverter_new
       (Some \<lparr>py_type = T_unicode, attr_args = [], attr_keyargs = []\<rparr>) =
     Inr \<lparr>bc_attr = Some \<lparr>py_type = T_unicode, attr_args = [], attr_keyargs = []\<rparr>,
          bc_max_len = Assigned (Some 200), bc_db_encoding = VStr ''utf8''\<rparr>"
    by (simp add: BasestringConverter_new_def BasestringConverter_init_def dict_pop_def)
  show ?thesis
    using new
      text_validate_rejects_over_max_len
        [of "\<lparr>bc_attr = None, bc_max_len = Assigned (Some 3), bc_db_encoding = VNone\<rparr>"
          3 "VStr ''abcd''" 4
          "\<lparr>py_type = T_unicode, attr_args = [], attr_keyargs = []\<rparr>"
          "\<lparr>bc_attr = Some \<lparr>py_type = T_unicode, attr_args = [], attr_keyargs = []\<rparr>,
             bc_max_len = Assigned (Some 200), bc_db_encoding = VStr ''utf8''\<rparr>"]
    by simp
qed

text \<open>
  C7 as stated fails on a converter configured with \<^verbatim>\<open>max_len\<close> 0: the test
  \<^verbatim>\<open>max_len and val_len > max_len\<close> is false, and a value of length 1 is accepted.
\<close>

theorem text_validate_max_len_zero_accepts:
  "BasestringConverter_new
     (Some \<lparr>py_type = T_unicode, attr_args = [VInt 0], attr_keyargs = []\<rparr>) =
     Inr \<lparr>bc_attr = Some \<lparr>py_type = T_unicode, attr_args = [VInt 0], attr_keyargs = []\<rparr>,
          bc_max_len = Assigned (Some 0), bc_db_encoding = VStr ''utf8''\<rparr>
   \<and> UnicodeConverter_validate
       \<lparr>bc_attr = Some \<lparr>py_type = T_unicode, attr_args = [VInt 0], attr_keyargs = []\<rparr>,
        bc_max_len = Assigned (Some 0), bc_db_encoding = VStr ''utf8''\<rparr>
       (VUnicode [97]) = Inr (VUnicode [97])"
  by (simp add: BasestringConverter_new_def BasestringConverter_init_def dict_pop_def
      UnicodeConverter_validate_def BasestringConverter_validate_def)

section \<open>Properties of the integer converter\<close>

lemma IntConverter_validate_accepts_bound:
  assumes "ic_min_val converter = Assigned lo" and "ic_max_val converter = Assigned hi"
    and "lo = Some v \<or> hi = Some v"
    and "\<forall>a b. lo = Some a \<and> hi = Some b \<longrightarrow> a \<le> b"
  shows "IntConverter_validate converter (VInt v) = Inr (VInt v)"
  using assms by (cases lo; cases hi) (auto simp add: IntConverter_validate_def)

lemma IntConverter_validate_rejects_below:
  assumes "ic_min_val converter = Assigned (Some m)" and "m \<noteq> 0"
  shows "IntConverter_validate converter (VInt (m - 1)) = Inl ValueError"
  using assms by (simp add: IntConverter_validate_def)

lemma IntConverter_validate_rejects_above:
  assumes "ic_min_val converter = Assigned lo" and "ic_max_val converter = Assigned (Some m)"
    and "m \<noteq> 0"
  shows "IntConverter_validate converter (VInt (m + 1)) = Inl ValueError"
  using assms by (simp add: IntConverter_validate_def split: option.splits)

text \<open>
  C4 at a bound of 0. A converter configured with \<^verbatim>\<open>min=0, max=10\<close> accepts \<open>-1\<close>, one
  below its minimum, while it rejects 11; one configured with \<^verbatim>\<open>min=-10, max=0\<close>
  accepts 1, one above its maximum. The tests \<^verbatim>\<open>converter.min_val and ...\<close> and
  \<^verbatim>\<open>converter.max_val and ...\<close> skip a bound of 0.
\<close>

theorem IntConverter_validate_zero_bound:
  "IntConverter_new
     (Some \<lparr>py_type = T_int, attr_args = [],
            attr_keyargs = [(''min'', VInt 0), (''max'', VInt 10)]\<rparr>) =
     Inr \<lparr>ic_attr = Some \<lparr>py_type = T_int, attr_args = [],
                           attr_keyargs = [(''min'', VInt 0), (''max'', VInt 10)]\<rparr>,
          ic_min_val = Assigned (Some 0), ic_max_val = Assigned (Some 10)\<rparr>
   \<and> IntConverter_validate
       \<lparr>ic_attr = Some \<lparr>py_type = T_int, attr_args = [],
                         attr_keyargs = [(''min'', VInt 0), (''max'', VInt 10)]\<rparr>,
        ic_min_val = Assigned (Some 0), ic_max_val = Assigned (Some 10)\<rparr>
       (VInt (- 1)) = Inr (VInt (- 1))
   \<and> IntConverter_validate
       \<lparr>ic_attr = Some \<lparr>py_type = T_int, attr_args = [],
                         attr_keyargs = [(''min'', VInt 0), (''max'', VInt 10)]\<rparr>,
        ic_min_val = Assigned (Some 0), ic_max_val = Assigned (Some 10)\<rparr>
       (VInt 11) = Inl ValueError
   \<and> IntConverter_validate
       \<lparr>ic_attr = None, ic_min_val = Assigned (Some (- 10)), ic_max_val = Assigned (Some 0)\<rparr>
       (VInt 1) = Inr (VInt 1)"
  by (simp add: IntConverter_new_def IntConverter_init_def dict_pop_def int_bound_def
      IntConverter_validate_def)

section \<open>Properties of the decimal converter\<close>

lemma map_of_filter_other: "k \<noteq> k' \<Longrightarrow> map_of (filter (\<lambda>kv. fst kv \<noteq> k') d) k = map_of d k"
  by (induction d) auto

lemma dict_pop_other:
  "k \<noteq> k' \<Longrightarrow> fst (dict_pop (snd (dict_pop d k' x)) k y) = fst (dict_pop d k y)"
  by (simp add: dict_pop_def map_of_filter_other)

lemma DecimalConverter_init_rejects:
  assumes "dc_attr converter = Some a"
    and "py_int (declared_precision a) = Some p"
    and "py_int (declared_scale a) = Some s"
    and "p \<le> 0 \<or> s \<le> 0 \<or> s > p"
  shows "DecimalConverter_init mk converter (attr_keyargs a) =
     Inl (if length (attr_args a) > 2 \<or> p \<le> 0 \<or> s \<le> 0 then TypeError else ValueError)"
proof (cases "attr_args a = []")
  case True
  obtain pv k1 where pop1: "dict_pop (attr_keyargs a) ''precision'' (VInt 12) = (pv, k1)"
    by (cases "dict_pop (attr_keyargs a) ''precision'' (VInt 12)")
  obtain sv k2 where pop2: "dict_pop k1 ''scale'' (VInt 2) = (sv, k2)"
    by (cases "dict_pop k1 ''scale'' (VInt 2)")
  have pv: "py_int pv = Some p"
    using assms(2) True pop1 by (simp add: declared_precision_def)
  have "sv = fst (dict_pop (attr_keyargs a) ''scale'' (VInt 2))"
    using dict_pop_other [of "''scale''" "''precision''" "attr_keyargs a" "VInt 12" "VInt 2"]
      pop1 pop2 by simp
  then have sv: "py_int sv = Some s"
    using assms(3) True by (simp add: declared_scale_def)
  show ?thesis
    using assms(1,4) True
    by (auto simp add: DecimalConverter_init_def Let_def pop1 pop2 pv sv)
next
  case False
  with assms show ?thesis
    by (auto simp add: DecimalConverter_init_def declared_precision_def declared_scale_def
        Let_def split: prod.splits)
qed

lemma DecimalConverter_init_precision:
  assumes "dc_attr converter = Some a"
    and "py_int (declared_precision a) = Some p" and "p \<le> 0"
  shows "DecimalConverter_init mk converter (attr_keyargs a) = Inl TypeError"
  using assms
  by (auto simp add: DecimalConverter_init_def declared_precision_def Let_def
      split: prod.splits)

lemma DecimalConverter_init_scale:
  assumes "dc_attr converter = Some a"
    and "py_int (declared_scale a) = Some s" and "s \<le> 0"
  shows "DecimalConverter_init mk converter (attr_keyargs a) = Inl TypeError"
proof (cases "attr_args a = []")
  case True
  obtain pv k1 where pop1: "dict_pop (attr_keyargs a) ''precision'' (VInt 12) = (pv, k1)"
    by (cases "dict_pop (attr_keyargs a) ''precision'' (VInt 12)")
  obtain sv k2 where pop2: "dict_pop k1 ''scale'' (VInt 2) = (sv, k2)"
    by (cases "dict_pop k1 ''scale'' (VInt 2)")
  have "sv = fst (dict_pop (attr_keyargs a) ''scale'' (VInt 2))"
    using dict_pop_other [of "''scale''" "''precision''" "attr_keyargs a" "VInt 12" "VInt 2"]
      pop1 pop2 by simp
  then have sv: "py_int sv = Some s"
    using assms(2) True by (simp add: declared_scale_def)
  show ?thesis
    using assms(1,3) True
    by (auto simp add: DecimalConverter_init_def Let_def pop1 pop2 sv split: option.splits)
next
  case False
  with assms show ?thesis
    by (auto simp add: DecimalConverter_init_def declared_scale_def
        Let_def split: prod.splits option.splits)
qed

text \<open>
  C8. Construction from an attribute fails whenever its precision is an integer
  \<open>p \<le> 0\<close> (\<^verbatim>\<open>TypeError\<close>), whenever its scale is an integer \<open>s \<le> 0\<close>
  (\<^verbatim>\<open>TypeError\<close>), and whenever its scale exceeds its precision (\<^verbatim>\<open>ValueError\<close>, or
  the \<^verbatim>\<open>TypeError\<close> of an earlier check). \<^verbatim>\<open>validate\<close> does not read the precision or
  the scale: its result is the same whatever they are.
\<close>

theorem DecimalConverter_new_rejects:
  "(py_int (declared_precision a) = Some p \<and> p \<le> 0 \<longrightarrow>
      DecimalConverter_new mk (Some a) = Inl TypeError)
   \<and> (py_int (declared_scale a) = Some s \<and> s \<le> 0 \<longrightarrow>
      DecimalConverter_new mk (Some a) = Inl TypeError)
   \<and> (py_int (declared_precision a) = Some p \<and> py_int (declared_scale a) = Some s \<and> s > p \<longrightarrow>
      DecimalConverter_new mk (Some a) =
        Inl (if length (attr_args a) > 2 \<or> p \<le> 0 \<or> s \<le> 0 then TypeError else ValueError))
   \<and> DecimalConverter_validate mk (converter\<lparr>dc_precision := x, dc_scale := y\<rparr>) val =
       DecimalConverter_validate mk converter val"
  using DecimalConverter_init_rejects [of _ a p s mk]
    DecimalConverter_init_precision [of _ a p mk]
    DecimalConverter_init_scale [of _ a s mk]
  by (simp add: DecimalConverter_new_def DecimalConverter_validate_def)

theorem DecimalConverter_new_rejects_witness:
  "DecimalConverter_new (\<lambda>v. Inl TypeError)
     (Some \<lparr>py_type = T_Decimal, attr_args = [VInt 2, VInt 5], attr_keyargs = []\<rparr>) =
     Inl ValueError
   \<and> DecimalConverter_new (\<lambda>v. Inl TypeError)
     (Some \<lparr>py_type = T_Decimal, attr_args = [],
            attr_keyargs = [(''precision'', VInt 0)]\<rparr>) = Inl TypeError
   \<and> DecimalConverter_new (\<lambda>v. Inl TypeError)
     (Some \<lparr>py_type = T_Decimal, attr_args = [VInt 4],
            attr_keyargs = [(''scale'', VInt (- 1))]\<rparr>) = Inl TypeError"
  using
    DecimalConverter_new_rejects
      [where a = "\<lparr>py_type = T_Decimal, attr_args = [VInt 2, VInt 5], attr_keyargs = []\<rparr>"
        and p = 2 and s = 5 and mk = "\<lambda>v. Inl TypeError"]
    DecimalConverter_new_rejects
      [where a = "\<lparr>py_type = T_Decimal, attr_args = [],
                   attr_keyargs = [(''precision'', VInt 0)]\<rparr>"
        and p = 0 and s = 2 and mk = "\<lambda>v. Inl TypeError"]
    DecimalConverter_new_rejects
      [where a = "\<lparr>py_type = T_Decimal, attr_args = [VInt 4],
                   attr_keyargs = [(''scale'', VInt (- 1))]\<rparr>"
        and p = 4 and s = "- 1" and mk = "\<lambda>v. Inl TypeError"]
  by (simp add: declared_precision_def declared_scale_def dict_pop_def)

text \<open>
  C2 at \<^verbatim>\<open>min=10\<close>. With a \<^verbatim>\<open>Decimal\<close> constructor that converts integers, the
  attribute option \<^verbatim>\<open>min=10\<close> gives a converter whose minimum is 10. On the decimal 5
  the range checks of lines 308--313 would raise \<^verbatim>\<open>ValueError\<close>, but \<^verbatim>\<open>validate\<close>
  returns 5: it has returned before them. In general \<^verbatim>\<open>validate\<close> does not depend on
  the two bounds.
\<close>

theorem DecimalConverter_validate_skips_range_checks:
  "DecimalConverter_new
     (\<lambda>v. case py_int v of Some i \<Rightarrow> Inr (Dec (i < 0) (nat \<bar>i\<bar>) 0) | None \<Rightarrow> Inl TypeError)
     (Some \<lparr>py_type = T_Decimal, attr_args = [], attr_keyargs = [(''min'', VInt 10)]\<rparr>) =
     Inr \<lparr>dc_attr = Some \<lparr>py_type = T_Decimal, attr_args = [],
                           attr_keyargs = [(''min'', VInt 10)]\<rparr>,
          dc_precision = Assigned 12, dc_scale = Assigned 2,
          dc_exp = Assigned (Dec False 1 (- 2)),
          dc_min_val = Assigned (Some (Dec False 10 0)), dc_max_val = Assigned None\<rparr>
   \<and> DecimalConverter_range_checks
       \<lparr>dc_attr = Some \<lparr>py_type = T_Decimal, attr_args = [],
                         attr_keyargs = [(''min'', VInt 10)]\<rparr>,
        dc_precision = Assigned 12, dc_scale = Assigned 2,
        dc_exp = Assigned (Dec False 1 (- 2)),
        dc_min_val = Assigned (Some (Dec False 10 0)), dc_max_val = Assigned None\<rparr>
       (Dec False 5 0) = Inl ValueError
   \<and> DecimalConverter_validate mk
       \<lparr>dc_attr = Some \<lparr>py_type = T_Decimal, attr_args = [],
                         attr_keyargs = [(''min'', VInt 10)]\<rparr>,
        dc_precision = Assigned 12, dc_scale = Assigned 2,
        dc_exp = Assigned (Dec False 1 (- 2)),
        dc_min_val = Assigned (Some (Dec False 10 0)), dc_max_val = Assigned None\<rparr>
       (VDecimal (Dec False 5 0)) = Inr (VDecimal (Dec False 5 0))
   \<and> DecimalConverter_validate mk (converter\<lparr>dc_min_val := lo, dc_max_val := hi\<rparr>) val =
       DecimalConverter_validate mk converter val"
  by (simp add: DecimalConverter_new_def DecimalConverter_init_def dict_pop_def
      decimal_bound_def DecimalConverter_range_checks_def dec_less_def dec_exp_def
      dec_scaled_def DecimalConverter_validate_def)

section \<open>Properties of the date converter\<close>

lemma of_char_digit_char: "n < 10 \<Longrightarrow> (of_char (digit_char n) :: nat) = 48 + n"
  by (simp add: digit_char_def)

lemma is_digit_digit_char: "n < 10 \<Longrightarrow> is_digit (digit_char n)"
  by (simp add: is_digit_def of_char_digit_char)

lemma digit_val_digit_char: "n < 10 \<Longrightarrow> digit_val (digit_char n) = n"
  by (simp add: digit_val_def of_char_digit_char)

lemma char_in_digit_char: "n < 10 \<Longrightarrow> char_in (digit_char n) lo hi = (lo \<le> n \<and> n \<le> hi)"
  by (simp add: char_in_def of_char_digit_char)

lemma digit_char_eq_char:
  assumes "n < 10"
  shows "(digit_char n = c) = (48 + n = (of_char c :: nat))"
proof -
  have "(digit_char n = c) = ((of_char (digit_char n) :: nat) = of_char c)"
    by (simp only: of_char_eq_iff)
  then show ?thesis by (simp only: of_char_digit_char [OF assms])
qed

lemmas digit_tests = is_digit_digit_char digit_val_digit_char char_in_digit_char
  digit_char_eq_char

lemma strptime_day_literal:
  assumes "1 \<le> d" "d \<le> 31"
  shows "strptime_day [digit_char (d div 10), digit_char (d mod 10)] = Some d"
proof -
  define k r where "k = d div 10" and "r = d mod 10"
  have d: "10 * k + r = d" by (simp add: k_def r_def)
  have r: "r < 10" by (simp add: r_def)
  have k: "k < 10" using d assms by linarith
  consider "k = 3" "r \<le> 1" | "k = 1 \<or> k = 2" | "k = 0" "1 \<le> r"
    using d assms r by linarith
  then have "strptime_day [digit_char k, digit_char r] = Some d"
  proof cases
    case 1
    with k r d show ?thesis by (simp add: strptime_day_def digit_tests)
  next
    case 2
    with k r d show ?thesis by (auto simp add: strptime_day_def digit_tests)
  next
    case 3
    with k r d show ?thesis by (simp add: strptime_day_def digit_tests)
  qed
  then show ?thesis by (simp only: k_def r_def)
qed

lemma strptime_month_day_literal:
  assumes "1 \<le> m" "m \<le> 12" "1 \<le> d" "d \<le> 31"
  shows "strptime_month_day [digit_char (m div 10), digit_char (m mod 10), CHR ''-'',
           digit_char (d div 10), digit_char (d mod 10)] = Some (m, d)"
proof -
  define k r where "k = m div 10" and "r = m mod 10"
  define rest where "rest = [digit_char (d div 10), digit_char (d mod 10)]"
  have day: "strptime_day rest = Some d"
    unfolding rest_def by (rule strptime_day_literal [OF assms(3,4)])
  have m: "10 * k + r = m" by (simp add: k_def r_def)
  have r: "r < 10" by (simp add: r_def)
  have k: "k < 10" using m assms by linarith
  consider "k = 1" "r \<le> 2" | "k = 0" "1 \<le> r"
    using m assms r by linarith
  then have "strptime_month_day (digit_char k # digit_char r # CHR ''-'' # rest) = Some (m, d)"
  proof cases
    case 1
    with k r m day show ?thesis by (simp add: strptime_month_day_def digit_tests)
  next
    case 2
    with k r m day show ?thesis by (simp add: strptime_month_day_def digit_tests)
  qed
  then show ?thesis by (simp only: k_def r_def rest_def)
qed

lemma days_in_month_le: "days_in_month y m \<le> 31"
  by (simp add: days_in_month_def)

lemma four_digits:
  "1000 * ((y::nat) div 1000) + 100 * (y div 100 mod 10) + 10 * (y div 10 mod 10) + y mod 10 = y"
proof -
  have a1: "y div 1000 = y div 100 div 10" using div_mult2_eq [of y 100 10] by simp
  have b1: "y div 100 = y div 10 div 10" using div_mult2_eq [of y 10 10] by simp
  have a: "y div 100 = 10 * (y div 100 div 10) + y div 100 mod 10" by simp
  have b: "y div 10 = 10 * (y div 10 div 10) + y div 10 mod 10" by simp
  have c: "y = 10 * (y div 10) + y mod 10" by simp
  show ?thesis using a b c a1 b1 by linarith
qed

lemma strptime_Ymd_literal:
  assumes "valid_date d"
  shows "strptime_Ymd (date_literal d) = Inr d"
proof -
  define y m dd where "y = nat (d_year d)" and "m = nat (d_month d)" and "dd = nat (d_day d)"
  have y: "1 \<le> y" "y \<le> 9999" "int y = d_year d"
    and m: "1 \<le> m" "m \<le> 12" "int m = d_month d"
    and dd: "1 \<le> dd" "dd \<le> 31" "int dd = d_day d"
    using assms days_in_month_le [of "d_year d" "d_month d"]
    by (auto simp: valid_date_def y_def m_def dd_def)
  have ylt: "y div 1000 < 10" "y div 100 mod 10 < 10" "y div 10 mod 10 < 10" "y mod 10 < 10"
    using y by auto
  have d_eq: "\<lparr>d_year = int y, d_month = int m, d_day = int dd\<rparr> = d"
    using y m dd by simp
  have lit: "date_literal d =
      [digit_char (y div 1000), digit_char (y div 100 mod 10), digit_char (y div 10 mod 10),
       digit_char (y mod 10), CHR ''-'', digit_char (m div 10), digit_char (m mod 10),
       CHR ''-'', digit_char (dd div 10), digit_char (dd mod 10)]"
    by (simp add: date_literal_def y_def m_def dd_def Let_def)
  have md: "strptime_month_day [digit_char (m div 10), digit_char (m mod 10),
       CHR ''-'', digit_char (dd div 10), digit_char (dd mod 10)] = Some (m, dd)"
    by (rule strptime_month_day_literal [OF m(1,2) dd(1,2)])
  have yv: "1000 * digit_val (digit_char (y div 1000)) + 100 * digit_val (digit_char (y div 100 mod 10))
      + 10 * digit_val (digit_char (y div 10 mod 10)) + digit_val (digit_char (y mod 10)) = y"
    by (simp only: digit_val_digit_char ylt four_digits)
  show ?thesis
    unfolding lit strptime_Ymd_def
    by (simp only: list.case is_digit_digit_char ylt md yv d_eq assms
         simp_thms if_True option.case prod.case Let_def)
qed

text \<open>
  C3, amended. \<^verbatim>\<open>validate\<close> of a datetime returns its date component. For a date \<open>d\<close>
  of the calendar, \<^verbatim>\<open>py2sql\<close> returns the timestamp at midnight of \<open>d\<close>, whose date
  component is \<open>d\<close>, and \<^verbatim>\<open>sql2py\<close> of the literal \<^verbatim>\<open>YYYY-MM-DD\<close> of \<open>d\<close> returns \<open>d\<close>.
  \<^verbatim>\<open>sql2py\<close> of a timestamp object raises \<^verbatim>\<open>TypeError\<close>.
\<close>

theorem DateConverter_roundtrip_through_literal:
  assumes "valid_date d"
  shows "DateConverter_validate (VDatetime dt) = Inr (VDate (datetime_date dt))
    \<and> DateConverter_py2sql (VDate d) =
        Inr (VDatetime (midnight (d_year d) (d_month d) (d_day d)))
    \<and> datetime_date (midnight (d_year d) (d_month d) (d_day d)) = d
    \<and> DateConverter_sql2py (VStr (date_literal d)) = Inr (VDate d)
    \<and> DateConverter_sql2py (VDatetime ts) = Inl TypeError"
  using strptime_Ymd_literal [OF assms]
  by (simp add: DateConverter_validate_def DateConverter_py2sql_def DateConverter_sql2py_def
      datetime_date_def midnight_def)

theorem DateConverter_roundtrip_through_literal_witness:
  "valid_date \<lparr>d_year = 2024, d_month = 2, d_day = 29\<rparr>
   \<and> date_literal \<lparr>d_year = 2024, d_month = 2, d_day = 29\<rparr> = ''2024-02-29''
   \<and> DateConverter_sql2py (VStr ''2024-02-29'') =
       Inr (VDate \<lparr>d_year = 2024, d_month = 2, d_day = 29\<rparr>)"
proof -
  have v: "valid_date \<lparr>d_year = 2024, d_month = 2, d_day = 29\<rparr>"
    by (simp add: valid_date_def days_in_month_def is_leap_def)
  have l: "date_literal \<lparr>d_year = 2024, d_month = 2, d_day = 29\<rparr> = ''2024-02-29''"
    by code_simp
  show ?thesis
    using v l DateConverter_roundtrip_through_literal [OF v] by simp
qed

text \<open>
  C3 as stated fails: what \<^verbatim>\<open>py2sql\<close> returns for the date 2000-01-01 is a timestamp
  object, and \<^verbatim>\<open>sql2py\<close> applied to it raises \<^verbatim>\<open>TypeError\<close> instead of returning the date.
\<close>

theorem DateConverter_sql2py_of_py2sql_raises:
  "DateConverter_py2sql (VDate \<lparr>d_year = 2000, d_month = 1, d_day = 1\<rparr>) =
     Inr (VDatetime (midnight 2000 1 1))
   \<and> DateConverter_sql2py (VDatetime (midnight 2000 1 1)) = Inl TypeError"
  by (simp add: DateConverter_py2sql_def DateConverter_sql2py_def)

section \<open>Properties of table creation\<close>

lemma contains_already_exists: "py_contains ''already exists'' ''table t already exists''" by code_simp
lemma contains_not_already_exists: "\<not> py_contains ''already exists'' ''syntax error''" by code_simp

text \<open>
  C5, amended. When \<^verbatim>\<open>Table.create\<close> raises a \<^verbatim>\<open>DatabaseError\<close> whose first argument
  contains \<^verbatim>\<open>already exists\<close>, \<^verbatim>\<open>PGTable.create\<close> issues one rollback on the
  connection: if the rollback succeeds, \<^verbatim>\<open>create\<close> returns and the transaction is no
  longer aborted; if the rollback raises, that failure surfaces (as \<^verbatim>\<open>orm\<close> wraps it).
  A \<^verbatim>\<open>DatabaseError\<close> with another message, and any exception that is not a
  \<^verbatim>\<open>DatabaseError\<close>, leaves \<^verbatim>\<open>create\<close> unchanged, and the connection is as
  \<^verbatim>\<open>Table.create\<close> left it: no rollback is issued.
\<close>

theorem PGTable_create_already_exists:
  "(Table_create c = (Inl (DatabaseError (msg # rest)), c') \<and> py_contains ''already exists'' msg \<longrightarrow>
      (rollback_raises drv c' = None \<longrightarrow>
            PGTable_create wrap drv Table_create c =
              (Inr (), c'\<lparr>in_failed_transaction := False,
                         rollback_calls := Suc (rollback_calls c')\<rparr>))
      \<and> (\<forall>e. rollback_raises drv c' = Some e \<longrightarrow>
            PGTable_create wrap drv Table_create c =
              (Inl (wrap e), c'\<lparr>rollback_calls := Suc (rollback_calls c')\<rparr>)))
   \<and> (Table_create c = (Inl (DatabaseError (msg # rest)), c') \<and> \<not> py_contains ''already exists'' msg \<longrightarrow>
      PGTable_create wrap drv Table_create c = (Inl (DatabaseError (msg # rest)), c'))
   \<and> (Table_create c = (Inl e', c') \<and> (\<forall>args. e' \<noteq> DatabaseError args) \<longrightarrow>
      PGTable_create wrap drv Table_create c = (Inl e', c'))"
  by (auto simp add: PGTable_create_def wrap_dbapi_exceptions_def con_rollback_def
      split: pyerror.splits)

theorem PGTable_create_already_exists_witness:
  "PGTable_create (\<lambda>e. e)
     \<lparr>rollback_raises = (\<lambda>c. None), close_raises = (\<lambda>c. None), connect_raises = (\<lambda>a k n. None)\<rparr>
     (\<lambda>c. (Inl (DatabaseError [''table t already exists'']), c\<lparr>in_failed_transaction := True\<rparr>))
     \<lparr>in_failed_transaction = False, is_closed = False, rollback_calls = 0\<rparr> =
   (Inr (), \<lparr>in_failed_transaction = False, is_closed = False, rollback_calls = 1\<rparr>)
   \<and> PGTable_create (\<lambda>e. e)
     \<lparr>rollback_raises = (\<lambda>c. Some (DriverError ''connection lost'')),
      close_raises = (\<lambda>c. None), connect_raises = (\<lambda>a k n. None)\<rparr>
     (\<lambda>c. (Inl (DatabaseError [''table t already exists'']), c\<lparr>in_failed_transaction := True\<rparr>))
     \<lparr>in_failed_transaction = False, is_closed = False, rollback_calls = 0\<rparr> =
   (Inl (DriverError ''connection lost''),
    \<lparr>in_failed_transaction = True, is_closed = False, rollback_calls = 1\<rparr>)
   \<and> PGTable_create (\<lambda>e. e)
     \<lparr>rollback_raises = (\<lambda>c. None), close_raises = (\<lambda>c. None), connect_raises = (\<lambda>a k n. None)\<rparr>
     (\<lambda>c. (Inl (DatabaseError [''syntax error'']), c\<lparr>in_failed_transaction := True\<rparr>))
     \<lparr>in_failed_transaction = False, is_closed = False, rollback_calls = 0\<rparr> =
   (Inl (DatabaseError [''syntax error'']),
    \<lparr>in_failed_transaction = True, is_closed = False, rollback_calls = 0\<rparr>)
   \<and> PGTable_create (\<lambda>e. e)
     \<lparr>rollback_raises = (\<lambda>c. None), close_raises = (\<lambda>c. None), connect_raises = (\<lambda>a k n. None)\<rparr>
     (\<lambda>c. (Inl TypeError, c))
     \<lparr>in_failed_transaction = False, is_closed = False, rollback_calls = 0\<rparr> =
   (Inl TypeError, \<lparr>in_failed_transaction = False, is_closed = False, rollback_calls = 0\<rparr>)"
proof -
  let ?c = "\<lparr>in_failed_transaction = False, is_closed = False, rollback_calls = 0\<rparr>"
  let ?c' = "\<lparr>in_failed_transaction = True, is_closed = False, rollback_calls = 0\<rparr>"
  let ?ok = "\<lparr>rollback_raises = (\<lambda>c. None), close_raises = (\<lambda>c. None),
               connect_raises = (\<lambda>a k n. None)\<rparr>"
  let ?lost = "\<lparr>rollback_raises = (\<lambda>c. Some (DriverError ''connection lost'')),
                 close_raises = (\<lambda>c. None), connect_raises = (\<lambda>a k n. None)\<rparr>"
  let ?exists = "\<lambda>c. (Inl (DatabaseError [''table t already exists'']),
                      c\<lparr>in_failed_transaction := True\<rparr>)"
  let ?badsql = "\<lambda>c. (Inl (DatabaseError [''syntax error'']),
                      c\<lparr>in_failed_transaction := True\<rparr>)"
  let ?other = "\<lambda>c :: connection. (Inl TypeError :: pyerror + unit, c)"
  have 1: "PGTable_create (\<lambda>e. e) ?ok ?exists ?c =
      (Inr (), \<lparr>in_failed_transaction = False, is_closed = False, rollback_calls = 1\<rparr>)"
    using PGTable_create_already_exists
      [where Table_create = ?exists and c = ?c and msg = "''table t already exists''"
        and rest = "[]" and c' = ?c' and wrap = "\<lambda>e. e" and e' = TypeError and drv = ?ok]
      contains_already_exists
    by simp
  have 2: "PGTable_create (\<lambda>e. e) ?lost ?exists ?c =
      (Inl (DriverError ''connection lost''),
       \<lparr>in_failed_transaction = True, is_closed = False, rollback_calls = 1\<rparr>)"
    using PGTable_create_already_exists
      [where Table_create = ?exists and c = ?c and msg = "''table t already exists''"
        and rest = "[]" and c' = ?c' and wrap = "\<lambda>e. e" and e' = TypeError and drv = ?lost]
      contains_already_exists
    by simp
  have 3: "PGTable_create (\<lambda>e. e) ?ok ?badsql ?c = (Inl (DatabaseError [''syntax error'']), ?c')"
    using PGTable_create_already_exists
      [where Table_create = ?badsql and c = ?c and msg = "''syntax error''"
        and rest = "[]" and c' = ?c' and wrap = "\<lambda>e. e" and e' = TypeError and drv = ?ok]
      contains_not_already_exists
    by simp
  have 4: "PGTable_create (\<lambda>e. e) ?ok ?other ?c = (Inl TypeError, ?c)"
    using PGTable_create_already_exists
      [where Table_create = ?other and c = ?c and msg = "''syntax error''"
        and rest = "[]" and c' = ?c and wrap = "\<lambda>e. e" and e' = TypeError and drv = ?ok]
    by simp
  from 1 2 3 4 show ?thesis by (intro conjI)
qed

text \<open>
  C5 as stated fails when the rollback itself raises: \<^verbatim>\<open>Table.create\<close> reports that
  the table already exists, the rollback fails with a lost connection, and \<^verbatim>\<open>create\<close>
  raises that failure; the transaction stays aborted.
\<close>

theorem PGTable_create_rollback_failure_surfaces:
  "PGTable_create (\<lambda>e. case e of DriverError m \<Rightarrow> OrmError m | _ \<Rightarrow> e)
     \<lparr>rollback_raises = (\<lambda>c. Some (DriverError ''connection lost'')),
      close_raises = (\<lambda>c. None), connect_raises = (\<lambda>a k n. None)\<rparr>
     (\<lambda>c. (Inl (DatabaseError [''table t already exists'']), c\<lparr>in_failed_transaction := True\<rparr>))
     \<lparr>in_failed_transaction = False, is_closed = False, rollback_calls = 0\<rparr> =
   (Inl (OrmError ''connection lost''),
    \<lparr>in_failed_transaction = True, is_closed = False, rollback_calls = 1\<rparr>)"
  using contains_already_exists
  by (simp add: PGTable_create_def wrap_dbapi_exceptions_def con_rollback_def)

section \<open>Properties of the connection lease\<close>

text \<open>
  C6, amended. \<^verbatim>\<open>release\<close> on the held connection: if the rollback succeeds, the lease
  still holds the same handle and the connection is not closed. If the rollback raises,
  the held handle is cleared and \<^verbatim>\<open>close\<close> is called on the connection: when \<^verbatim>\<open>close\<close>
  succeeds the connection is closed and the rollback's exception is raised; when
  \<^verbatim>\<open>close\<close> raises too, its exception is raised in place of the rollback's.
\<close>

theorem Pool_release_outcomes:
  assumes "pool_con p = Some con"
  shows "(rollback_raises drv (conns w con) = None \<longrightarrow>
           Pool_release drv p w con =
             (Inr (), p,
              w\<lparr>conns := (conns w)(con := (conns w con)\<lparr>in_failed_transaction := False,
                    rollback_calls := Suc (rollback_calls (conns w con))\<rparr>)\<rparr>))
    \<and> (\<forall>e. rollback_raises drv (conns w con) = Some e
            \<and> close_raises drv ((conns w con)\<lparr>rollback_calls :=
                  Suc (rollback_calls (conns w con))\<rparr>) = None \<longrightarrow>
           Pool_release drv p w con =
             (Inl e, p\<lparr>pool_con := None\<rparr>,
              w\<lparr>conns := (conns w)(con := (conns w con)\<lparr>rollback_calls :=
                    Suc (rollback_calls (conns w con)), is_closed := True\<rparr>)\<rparr>))
    \<and> (\<forall>e e'. rollback_raises drv (conns w con) = Some e
            \<and> close_raises drv ((conns w con)\<lparr>rollback_calls :=
                  Suc (rollback_calls (conns w con))\<rparr>) = Some e' \<longrightarrow>
           Pool_release drv p w con =
             (Inl e', p\<lparr>pool_con := None\<rparr>,
              w\<lparr>conns := (conns w)(con := (conns w con)\<lparr>rollback_calls :=
                    Suc (rollback_calls (conns w con))\<rparr>)\<rparr>))"
  using assms
  by (auto simp add: Pool_release_def Pool_close_def con_rollback_def con_close_def)

theorem Pool_release_outcomes_witness:
  "Pool_release
     \<lparr>rollback_raises = (\<lambda>c. None), close_raises = (\<lambda>c. None), connect_raises = (\<lambda>a k n. None)\<rparr>
     \<lparr>pool_args = [], pool_keyargs = [], pool_con = Some 0\<rparr>
     \<lparr>conns = (\<lambda>n. \<lparr>in_failed_transaction = True, is_closed = False, rollback_calls = 0\<rparr>),
      opened = 1\<rparr> 0 =
   (Inr (), \<lparr>pool_args = [], pool_keyargs = [], pool_con = Some 0\<rparr>,
    \<lparr>conns = (\<lambda>n. \<lparr>in_failed_transaction = True, is_closed = False, rollback_calls = 0\<rparr>)
        (0 := \<lparr>in_failed_transaction = False, is_closed = False, rollback_calls = 1\<rparr>),
      opened = 1\<rparr>)
   \<and> Pool_release
     \<lparr>rollback_raises = (\<lambda>c. Some (DriverError ''rollback failed'')),
      close_raises = (\<lambda>c. None), connect_raises = (\<lambda>a k n. None)\<rparr>
     \<lparr>pool_args = [], pool_keyargs = [], pool_con = Some 0\<rparr>
     \<lparr>conns = (\<lambda>n. \<lparr>in_failed_transaction = True, is_closed = False, rollback_calls = 0\<rparr>),
      opened = 1\<rparr> 0 =
   (Inl (DriverError ''rollback failed''),
    \<lparr>pool_args = [], pool_keyargs = [], pool_con = None\<rparr>,
    \<lparr>conns = (\<lambda>n. \<lparr>in_failed_transaction = True, is_closed = False, rollback_calls = 0\<rparr>)
        (0 := \<lparr>in_failed_transaction = True, is_closed = True, rollback_calls = 1\<rparr>),
      opened = 1\<rparr>)
   \<and> Pool_release
     \<lparr>rollback_raises = (\<lambda>c. Some (DriverError ''rollback failed'')),
      close_raises = (\<lambda>c. Some (DriverError ''close failed'')),
      connect_raises = (\<lambda>a k n. None)\<rparr>
     \<lparr>pool_args = [], pool_keyargs = [], pool_con = Some 0\<rparr>
     \<lparr>conns = (\<lambda>n. \<lparr>in_failed_transaction = True, is_closed = False, rollback_calls = 0\<rparr>),
      opened = 1\<rparr> 0 =
   (Inl (DriverError ''close failed''),
    \<lparr>pool_args = [], pool_keyargs = [], pool_con = None\<rparr>,
    \<lparr>conns = (\<lambda>n. \<lparr>in_failed_transaction = True, is_closed = False, rollback_calls = 0\<rparr>)
        (0 := \<lparr>in_failed_transaction = True, is_closed = False, rollback_calls = 1\<rparr>),
      opened = 1\<rparr>)"
proof -
  let ?p = "\<lparr>pool_args = [], pool_keyargs = [], pool_con = Some (0 :: nat)\<rparr>"
  let ?w = "\<lparr>conns = (\<lambda>n. \<lparr>in_failed_transaction = True, is_closed = False,
                            rollback_calls = 0\<rparr>), opened = 1\<rparr>"
  have held: "pool_con ?p = Some 0" by simp
  note outcomes = Pool_release_outcomes [OF held, where w = ?w]
  have 1: "Pool_release
     \<lparr>rollback_raises = (\<lambda>c. None), close_raises = (\<lambda>c. None), connect_raises = (\<lambda>a k n. None)\<rparr>
     ?p ?w 0 =
   (Inr (), ?p,
    \<lparr>conns = (\<lambda>n. \<lparr>in_failed_transaction = True, is_closed = False, rollback_calls = 0\<rparr>)
        (0 := \<lparr>in_failed_transaction = False, is_closed = False, rollback_calls = 1\<rparr>),
      opened = 1\<rparr>)"
    using outcomes
      [where drv = "\<lparr>rollback_raises = (\<lambda>c. None), close_raises = (\<lambda>c. None),
                      connect_raises = (\<lambda>a k n. None)\<rparr>"]
    by simp
  have 2: "Pool_release
     \<lparr>rollback_raises = (\<lambda>c. Some (DriverError ''rollback failed'')),
      close_raises = (\<lambda>c. None), connect_raises = (\<lambda>a k n. None)\<rparr>
     ?p ?w 0 =
   (Inl (DriverError ''rollback failed''),
    \<lparr>pool_args = [], pool_keyargs = [], pool_con = None\<rparr>,
    \<lparr>conns = (\<lambda>n. \<lparr>in_failed_transaction = True, is_closed = False, rollback_calls = 0\<rparr>)
        (0 := \<lparr>in_failed_transaction = True, is_closed = True, rollback_calls = 1\<rparr>),
      opened = 1\<rparr>)"
    using outcomes
      [where drv = "\<lparr>rollback_raises = (\<lambda>c. Some (DriverError ''rollback failed'')),
                      close_raises = (\<lambda>c. None), connect_raises = (\<lambda>a k n. None)\<rparr>"]
    by simp
  have 3: "Pool_release
     \<lparr>rollback_raises = (\<lambda>c. Some (DriverError ''rollback failed'')),
      close_raises = (\<lambda>c. Some (DriverError ''close failed'')),
      connect_raises = (\<lambda>a k n. None)\<rparr>
     ?p ?w 0 =
   (Inl (DriverError ''close failed''),
    \<lparr>pool_args = [], pool_keyargs = [], pool_con = None\<rparr>,
    \<lparr>conns = (\<lambda>n. \<lparr>in_failed_transaction = True, is_closed = False, rollback_calls = 0\<rparr>)
        (0 := \<lparr>in_failed_transaction = True, is_closed = False, rollback_calls = 1\<rparr>),
      opened = 1\<rparr>)"
    using outcomes
      [where drv = "\<lparr>rollback_raises = (\<lambda>c. Some (DriverError ''rollback failed'')),
                      close_raises = (\<lambda>c. Some (DriverError ''close failed'')),
                      connect_raises = (\<lambda>a k n. None)\<rparr>"]
    by simp
  from 1 2 3 show ?thesis by (intro conjI)
qed

text \<open>
  C6 as stated fails when \<^verbatim>\<open>close\<close> raises as well: \<^verbatim>\<open>release\<close> raises the failure of
  \<^verbatim>\<open>close\<close>, not that of the rollback, and the connection is not closed.
\<close>

theorem Pool_release_close_failure_replaces:
  "Pool_release
     \<lparr>rollback_raises = (\<lambda>c. Some (DriverError ''rollback failed'')),
      close_raises = (\<lambda>c. Some (DriverError ''close failed'')),
      connect_raises = (\<lambda>a k n. None)\<rparr>
     \<lparr>pool_args = [], pool_keyargs = [], pool_con = Some 0\<rparr>
     \<lparr>conns = (\<lambda>n. \<lparr>in_failed_transaction = True, is_closed = False, rollback_calls = 0\<rparr>),
      opened = 1\<rparr> 0 =
   (Inl (DriverError ''close failed''),
    \<lparr>pool_args = [], pool_keyargs = [], pool_con = None\<rparr>,
    \<lparr>conns = (\<lambda>n. \<lparr>in_failed_transaction = True, is_closed = False, rollback_calls = 0\<rparr>)
        (0 := \<lparr>in_failed_transaction = True, is_closed = False, rollback_calls = 1\<rparr>),
      opened = 1\<rparr>)"
  by (simp add: Pool_release_def Pool_close_def con_rollback_def con_close_def)

lemma lease_calls_keep_connection:
  assumes "lease_calls drv cs p w = Inr (p', w')" and "pool_con p = Some h"
  shows "pool_con p' = Some h \<and> opened w' = opened w"
  using assms
proof (induction cs arbitrary: p w)
  case Nil
  then show ?case by simp
next
  case (Cons c cs)
  show ?case
  proof (cases c)
    case Acquire
    with Cons.prems have "lease_calls drv cs p w = Inr (p', w')"
      by (simp add: Pool_connect_def)
    with Cons.IH Cons.prems(2) show ?thesis by blast
  next
    case (Release con)
    show ?thesis
    proof (cases "Pool_release drv p w con")
      case (fields r p1 w1)
      with Cons.prems Release obtain u where r: "r = Inr u"
        and rest: "lease_calls drv cs p1 w1 = Inr (p', w')"
        by (cases r) auto
      from fields r Cons.prems(2) have "pool_con p1 = Some h \<and> opened w1 = opened w"
        by (auto simp add: Pool_release_def Pool_close_def con_rollback_def con_close_def
            split: if_splits option.splits prod.splits sum.splits)
      with Cons.IH [OF rest] show ?thesis by simp
    qed
  qed
qed

text \<open>
  C9. After an \<^verbatim>\<open>acquire\<close> that returned the handle \<open>h\<close>, and any calls of \<^verbatim>\<open>acquire\<close>
  and \<^verbatim>\<open>release\<close> that returned (so no release whose rollback failed, and no close),
  \<^verbatim>\<open>acquire\<close> returns \<open>h\<close> again and changes nothing: the driver has opened no further
  connection since the first call, and the first call opened one only if the lease
  held none.
\<close>

theorem Pool_connect_twice_same_handle:
  assumes "Pool_connect drv p w = (Inr h, p1, w1)"
    and "lease_calls drv cs p1 w1 = Inr (p2, w2)"
  shows "Pool_connect drv p2 w2 = (Inr h, p2, w2)
    \<and> opened w2 = opened w1
    \<and> opened w1 = (if pool_con p = None then Suc (opened w) else opened w)"
proof -
  from assms(1) have held: "pool_con p1 = Some h"
    and cnt: "opened w1 = (if pool_con p = None then Suc (opened w) else opened w)"
    by (auto simp add: Pool_connect_def pgdb_connect_def split: option.splits)
  from lease_calls_keep_connection [OF assms(2) held]
  have "pool_con p2 = Some h" and "opened w2 = opened w1" by simp_all
  with cnt show ?thesis by (simp add: Pool_connect_def)
qed

theorem Pool_connect_twice_same_handle_witness:
  "Pool_connect
     \<lparr>rollback_raises = (\<lambda>c. None), close_raises = (\<lambda>c. None), connect_raises = (\<lambda>a k n. None)\<rparr>
     (Pool_init [] [])
     \<lparr>conns = (\<lambda>n. \<lparr>in_failed_transaction = False, is_closed = True, rollback_calls = 0\<rparr>),
      opened = 0\<rparr> =
   (Inr 0, \<lparr>pool_args = [], pool_keyargs = [], pool_con = Some 0\<rparr>,
    \<lparr>conns = (\<lambda>n. \<lparr>in_failed_transaction = False, is_closed = True, rollback_calls = 0\<rparr>)
        (0 := \<lparr>in_failed_transaction = False, is_closed = False, rollback_calls = 0\<rparr>),
      opened = 1\<rparr>)
   \<and> Pool_connect
     \<lparr>rollback_raises = (\<lambda>c. None), close_raises = (\<lambda>c. None), connect_raises = (\<lambda>a k n. None)\<rparr>
     \<lparr>pool_args = [], pool_keyargs = [], pool_con = Some 0\<rparr>
     \<lparr>conns = (\<lambda>n. \<lparr>in_failed_transaction = False, is_closed = True, rollback_calls = 0\<rparr>)
        (0 := \<lparr>in_failed_transaction = False, is_closed = False, rollback_calls = 1\<rparr>),
      opened = 1\<rparr> =
   (Inr 0, \<lparr>pool_args = [], pool_keyargs = [], pool_con = Some 0\<rparr>,
    \<lparr>conns = (\<lambda>n. \<lparr>in_failed_transaction = False, is_closed = True, rollback_calls = 0\<rparr>)
        (0 := \<lparr>in_failed_transaction = False, is_closed = False, rollback_calls = 1\<rparr>),
      opened = 1\<rparr>)"
proof -
  let ?drv = "\<lparr>rollback_raises = (\<lambda>c. None), close_raises = (\<lambda>c. None),
                connect_raises = (\<lambda>a k n. None)\<rparr>"
  let ?w0 = "\<lparr>conns = (\<lambda>n. \<lparr>in_failed_transaction = False, is_closed = True,
                rollback_calls = 0\<rparr>), opened = 0\<rparr>"
  let ?p1 = "\<lparr>pool_args = [], pool_keyargs = [], pool_con = Some 0\<rparr>"
  let ?w1 = "\<lparr>conns = (\<lambda>n. \<lparr>in_failed_transaction = False, is_closed = True, rollback_calls = 0\<rparr>)
        (0 := \<lparr>in_failed_transaction = False, is_closed = False, rollback_calls = 0\<rparr>),
      opened = 1\<rparr>"
  let ?w2 = "\<lparr>conns = (\<lambda>n. \<lparr>in_failed_transaction = False, is_closed = True, rollback_calls = 0\<rparr>)
        (0 := \<lparr>in_failed_transaction = False, is_closed = False, rollback_calls = 1\<rparr>),
      opened = 1\<rparr>"
  have first: "Pool_connect ?drv (Pool_init [] []) ?w0 = (Inr 0, ?p1, ?w1)"
    by (simp add: Pool_connect_def Pool_init_def pgdb_connect_def)
  have between: "lease_calls ?drv [Acquire, Release 0] ?p1 ?w1 = Inr (?p1, ?w2)"
    by (simp add: Pool_connect_def Pool_release_def con_rollback_def)
  have second: "Pool_connect ?drv ?p1 ?w2 = (Inr 0, ?p1, ?w2)"
    by (rule conjunct1 [OF Pool_connect_twice_same_handle [OF first between]])
  show ?thesis by (rule conjI [OF first second])
qed

section \<open>Properties of the binary codec\<close>

lemma fold_upd_other:
  "k \<notin> f ` set xs \<Longrightarrow> fold (\<lambda>i m. m(f i \<mapsto> g i)) xs m k = m k"
  by (induction xs arbitrary: m) auto

lemma fold_upd_lookup:
  "inj_on f (set xs) \<Longrightarrow> i \<in> set xs \<Longrightarrow>
     fold (\<lambda>i m. m(f i \<mapsto> g i)) xs m (f i) = Some (g i)"
proof (induction xs arbitrary: m)
  case Nil
  then show ?case by simp
next
  case (Cons x xs)
  define F where "F = (\<lambda>i (m :: 'b \<rightharpoonup> 'c). m(f i \<mapsto> g i))"
  have step: "fold F (x # xs) m = fold F xs (F x m)" by simp
  show ?case
  proof (cases "i \<in> set xs")
    case True
    from Cons.prems(1) have "inj_on f (set xs)" by (simp add: inj_on_def)
    from Cons.IH [OF this True, of "F x m"] show ?thesis
      unfolding F_def [symmetric] step .
  next
    case False
    with Cons.prems have ix: "i = x" by simp
    from Cons.prems False ix have "f x \<notin> f ` set xs" by (auto simp: inj_on_def)
    from fold_upd_other [OF this, of g "F x m"]
    have "fold F xs (F x m) (f x) = F x m (f x)" unfolding F_def [symmetric] .
    also have "\<dots> = Some (g x)" by (simp add: F_def)
    finally show ?thesis unfolding F_def [symmetric] step ix .
  qed
qed

lemma inj_on_char_of: "inj_on (char_of :: nat \<Rightarrow> char) (set [0..<256])"
proof (rule inj_onI)
  fix a b :: nat
  assume "a \<in> set [0..<256]" "b \<in> set [0..<256]" "(char_of a :: char) = char_of b"
  then have "(of_char (char_of a :: char) :: nat) = of_char (char_of b :: char)" "a < 256" "b < 256"
    by simp_all
  then show "a = b" by simp
qed

lemma char2oct_table_lookup: "char2oct_table c = Some (char2oct c)"
proof (cases "c = backslash")
  case True
  then show ?thesis by (simp add: char2oct_table_def char2oct_def)
next
  case False
  have "(of_char c :: nat) \<in> set [0..<256]" by simp
  from fold_upd_lookup [OF inj_on_char_of this, where m = Map.empty
      and g = "\<lambda>i. if 31 < i \<and> i < 127 then [char_of i] else backslash # last3 (''00'' @ py_oct i)"]
  show ?thesis using False
    by (simp add: char2oct_table_def char2oct_def Let_def)
qed

lemma of_char_backslash: "(of_char backslash :: nat) = 92"
  by (simp add: backslash_def)

lemma is_oct_digit_not_backslash: "is_oct_digit d \<Longrightarrow> d \<noteq> backslash"
  by (auto simp add: is_oct_digit_def of_char_backslash)

lemma oct_digit_char: "n < 8 \<Longrightarrow> is_oct_digit (digit_char n) \<and> digit_val (digit_char n) = n"
  by (simp add: is_oct_digit_def digit_val_def of_char_digit_char)

lemma oct_digits_small: "n < 8 \<Longrightarrow> oct_digits n = [digit_char n]"
  by (simp add: oct_digits.simps)

lemma oct_digits_two: "8 \<le> n \<Longrightarrow> n < 64 \<Longrightarrow> oct_digits n = [digit_char (n div 8), digit_char (n mod 8)]"
  by (subst oct_digits.simps) (simp add: oct_digits_small)

lemma oct_digits_three: "64 \<le> n \<Longrightarrow> n < 512 \<Longrightarrow>
   oct_digits n = [digit_char (n div 64), digit_char (n div 8 mod 8), digit_char (n mod 8)]"
proof -
  assume a: "64 \<le> n" "n < 512"
  then have b: "8 \<le> n div 8" "n div 8 < 64" by auto
  have c: "n div 8 div 8 = n div 64" by (simp add: div_mult2_eq)
  from a show ?thesis
    by (subst oct_digits.simps) (simp add: oct_digits_two [OF b] c)
qed

lemma digit_char_0: "digit_char 0 = CHR ''0''"
  by code_simp

lemma last3_oct:
  assumes "n < 256"
  shows "last3 (CHR ''0'' # CHR ''0'' # py_oct n) = [digit_char (n div 64), digit_char (n div 8 mod 8), digit_char (n mod 8)]"
proof -
  consider "n = 0" | "0 < n" "n < 8" | "8 \<le> n" "n < 64" | "64 \<le> n" "n < 512"
    using assms by linarith
  then show ?thesis
  proof cases
    case 1
    then show ?thesis by (simp add: py_oct_def last3_def digit_char_0)
  next
    case 2
    then show ?thesis by (simp add: py_oct_def last3_def oct_digits_small digit_char_0)
  next
    case 3
    then have "n div 64 = 0" "n div 8 mod 8 = n div 8" by auto
    with 3 show ?thesis by (simp add: py_oct_def last3_def oct_digits_two digit_char_0)
  next
    case 4
    then show ?thesis by (simp add: py_oct_def last3_def oct_digits_three)
  qed
qed

text \<open>The entry of a byte that is neither printable nor the backslash.\<close>

lemma char2oct_escape:
  assumes "c \<noteq> backslash" and "\<not> (31 < (of_char c :: nat) \<and> (of_char c :: nat) < 127)"
  shows "\<exists>d1 d2 d3. char2oct c = [backslash, d1, d2, d3]
      \<and> is_oct_digit d1 \<and> is_oct_digit d2 \<and> is_oct_digit d3
      \<and> 64 * digit_val d1 + 8 * digit_val d2 + digit_val d3 = (of_char c :: nat)"
proof -
  define n where "n = (of_char c :: nat)"
  have n: "n < 256" by (simp add: n_def)
  have lt: "n div 64 < 8" "n div 8 mod 8 < 8" "n mod 8 < 8" using n by auto
  have a: "n div 64 = n div 8 div 8" by (simp add: div_mult2_eq)
  have b: "n div 8 = 8 * (n div 8 div 8) + n div 8 mod 8" by simp
  have c: "n = 8 * (n div 8) + n mod 8" by simp
  have sum: "64 * (n div 64) + 8 * (n div 8 mod 8) + n mod 8 = n"
    using a b c by linarith
  have "char2oct c = [backslash, digit_char (n div 64), digit_char (n div 8 mod 8),
      digit_char (n mod 8)]"
    using assms by (simp add: char2oct_def Let_def last3_oct [OF n] n_def [symmetric])
  with lt sum show ?thesis
    by (simp add: oct_digit_char n_def)
qed

lemma char2oct_cases:
  obtains (bs) "c = backslash" "char2oct c = [backslash, backslash]"
  | (plain) "c \<noteq> backslash" "char2oct c = [c]"
  | (esc) d1 d2 d3 where "c \<noteq> backslash" "char2oct c = [backslash, d1, d2, d3]"
      "is_oct_digit d1" "is_oct_digit d2" "is_oct_digit d3"
      "64 * digit_val d1 + 8 * digit_val d2 + digit_val d3 = (of_char c :: nat)"
proof (cases "c = backslash")
  case True
  then show ?thesis using bs by (simp add: char2oct_def)
next
  case False
  show ?thesis
  proof (cases "31 < (of_char c :: nat) \<and> (of_char c :: nat) < 127")
    case True
    with False show ?thesis using plain by (simp add: char2oct_def)
  next
    case False
    with \<open>c \<noteq> backslash\<close> char2oct_escape [of c] show ?thesis using esc by blast
  qed
qed

lemma replace_backslashes_plain:
  "c \<noteq> backslash \<Longrightarrow> replace_backslashes (c # s) = c # replace_backslashes s"
  by (cases s) simp_all

lemma replace_backslashes_char2oct:
  "replace_backslashes (char2oct c @ s) = mid c @ replace_backslashes s"
proof (cases c rule: char2oct_cases)
  case bs
  then show ?thesis by (simp add: mid_def)
next
  case plain
  then show ?thesis by (simp add: mid_def replace_backslashes_plain)
next
  case (esc d1 d2 d3)
  then show ?thesis
    by (simp add: mid_def replace_backslashes_plain is_oct_digit_not_backslash)
qed

lemma replace_backslashes_py2sql:
  "replace_backslashes (BlobConverter_py2sql b) = concat (map mid b)"
  by (induction b) (simp_all add: BlobConverter_py2sql_def replace_backslashes_char2oct)

lemma oct_re_sub_no_match:
  assumes "\<not> (c = backslash \<and> oct3 s)"
  shows "oct_re_sub (c # s) = (case oct_re_sub s of Inl e \<Rightarrow> Inl e | Inr r \<Rightarrow> Inr (c # r))"
proof (cases s)
  case Nil
  then show ?thesis by simp
next
  case s1: (Cons d1 t1)
  show ?thesis
  proof (cases t1)
    case Nil
    with s1 show ?thesis by simp
  next
    case s2: (Cons d2 t2)
    show ?thesis
    proof (cases t2)
      case Nil
      with s1 s2 show ?thesis by simp
    next
      case (Cons d3 t3)
      with s1 s2 assms show ?thesis by (auto simp add: oct3_def)
    qed
  qed
qed

lemma mid_head_digit:
  assumes "concat (map mid b) = d # t" and "is_oct_digit d"
  shows "\<exists>b'. b = d # b' \<and> t = concat (map mid b')"
proof (cases b)
  case Nil
  with assms show ?thesis by simp
next
  case (Cons c b')
  show ?thesis
  proof (cases c rule: char2oct_cases)
    case bs
    with Cons assms show ?thesis
      by (auto simp add: mid_def dest: is_oct_digit_not_backslash)
  next
    case plain
    with Cons assms show ?thesis by (simp add: mid_def)
  next
    case (esc d1 d2 d3)
    with Cons assms show ?thesis
      by (auto simp add: mid_def dest: is_oct_digit_not_backslash)
  qed
qed

lemma oct3_mid:
  assumes "oct3 (concat (map mid b))"
  shows "oct3 b"
proof -
  from assms obtain d1 d2 d3 t where m: "concat (map mid b) = d1 # d2 # d3 # t"
    and d: "is_oct_digit d1" "is_oct_digit d2" "is_oct_digit d3"
    by (auto simp add: oct3_def split: list.splits)
  from mid_head_digit [OF m d(1)] obtain b1 where b1: "b = d1 # b1"
    and m1: "d2 # d3 # t = concat (map mid b1)" by blast
  from mid_head_digit [OF m1 [symmetric] d(2)] obtain b2 where b2: "b1 = d2 # b2"
    and m2: "d3 # t = concat (map mid b2)" by blast
  from mid_head_digit [OF m2 [symmetric] d(3)] obtain b3 where b3: "b2 = d3 # b3" by blast
  from b1 b2 b3 d show ?thesis by (simp add: oct3_def)
qed

lemma oct_re_sub_mid:
  "clash_free b \<Longrightarrow> oct_re_sub (concat (map mid b)) = Inr b"
proof (induction b)
  case Nil
  then show ?case by simp
next
  case (Cons c b)
  then have ih: "oct_re_sub (concat (map mid b)) = Inr b"
    and free: "\<not> (c = backslash \<and> oct3 b)" by simp_all
  show ?case
  proof (cases c rule: char2oct_cases)
    case bs
    then have m: "mid c = [c]" by (simp add: mid_def)
    from bs free have "\<not> (c = backslash \<and> oct3 (concat (map mid b)))"
      using oct3_mid by blast
    from oct_re_sub_no_match [OF this] m ih show ?thesis by simp
  next
    case plain
    then have m: "mid c = [c]" by (simp add: mid_def)
    from plain have "\<not> (c = backslash \<and> oct3 (concat (map mid b)))" by simp
    from oct_re_sub_no_match [OF this] m ih show ?thesis by simp
  next
    case (esc d1 d2 d3)
    then have m: "mid c = [backslash, d1, d2, d3]" by (simp add: mid_def)
    have "(of_char c :: nat) < 256" by simp
    with esc ih m show ?thesis by simp
  qed
qed

lemma py2sql_no_hex_marker:
  "take 2 (BlobConverter_py2sql b) \<noteq> [backslash, CHR ''x'']"
proof (cases b)
  case Nil
  then show ?thesis by (simp add: BlobConverter_py2sql_def)
next
  case (Cons c b')
  show ?thesis
  proof (cases c rule: char2oct_cases)
    case bs
    with Cons show ?thesis by (simp add: BlobConverter_py2sql_def backslash_def)
  next
    case plain
    with Cons show ?thesis by (cases "concat (map char2oct b')") (auto simp add: BlobConverter_py2sql_def)
  next
    case (esc d1 d2 d3)
    with Cons show ?thesis by (auto simp add: BlobConverter_py2sql_def is_oct_digit_def)
  qed
qed

text \<open>
  Where the codec does round-trip: on every byte sequence free of clashes, whatever
  bytes it is made of, decoding the encoding returns the sequence.
\<close>

lemma BlobConverter_roundtrip_clash_free:
  assumes "clash_free b"
  shows "BlobConverter_sql2py (BlobConverter_py2sql b) = Inr b"
  using py2sql_no_hex_marker [of b] oct_re_sub_mid [OF assms]
  by (simp add: BlobConverter_sql2py_def replace_backslashes_py2sql)

text \<open>
  C1 at a backslash followed by three octal digits. The four bytes \<^verbatim>\<open>\101\<close> are
  encoded as \<^verbatim>\<open>\\101\<close>; decoding collapses the doubled backslash first and then reads
  \<^verbatim>\<open>\101\<close> as an octal escape, so the result is the single byte \<^verbatim>\<open>A\<close>. For the four
  bytes \<^verbatim>\<open>\777\<close> the escape is out of range and decoding raises \<^verbatim>\<open>ValueError\<close>.
\<close>

theorem BlobConverter_roundtrip_backslash_octal:
  "BlobConverter_py2sql [backslash, CHR ''1'', CHR ''0'', CHR ''1''] =
     [backslash, backslash, CHR ''1'', CHR ''0'', CHR ''1'']
   \<and> BlobConverter_sql2py (BlobConverter_py2sql [backslash, CHR ''1'', CHR ''0'', CHR ''1'']) =
       Inr ''A''
   \<and> BlobConverter_sql2py (BlobConverter_py2sql [backslash, CHR ''7'', CHR ''7'', CHR ''7'']) =
       Inl ValueError"
  by code_simp

end
